theory Spec2Isabelle
  imports Main
begin

section \<open>Data model (server/types/index.ts)\<close>

text \<open>
  The interfaces of \<^verbatim>\<open>server/types/index.ts\<close> become records, their string-literal
  unions become datatypes, and optional fields (\<^verbatim>\<open>field?: T\<close>) become \<open>option\<close>s.
  Record fields carry a short prefix because field names are global constants.
  An instant produced by \<^verbatim>\<open>new Date().toISOString()\<close> is kept as the clock reading
  (milliseconds) it renders; the ISO-8601 rendering itself is not modelled.
\<close>

datatype action_type = github_issue | email | sheet_update | slack_message

record action_payload =
  issueNumber :: "int option"
  issueUrl :: "string option"
  title :: "string option"
  repository :: "string option"

record action_result =
  ar_type :: action_type
  ar_platform :: string
  ar_success :: bool
  ar_result :: "action_payload option"
  ar_error :: "string option"
  ar_timestamp :: nat

datatype research_status = pending | completed | failed

record research_result =
  rr_id :: string
  rr_query :: string
  rr_findings :: string
  rr_actions :: "action_result list"
  rr_timestamp :: string
  rr_status :: research_status

record research_query =
  rq_query :: string
  rq_userId :: "string option"
  rq_sessionId :: "string option"

datatype message_type =
  t_status | t_progress | t_result | t_error | t_heartbeat | t_connected | t_complete

datatype step = analyzing | researching | planning | executing | complete

record workflow_result =
  wr_research :: research_result
  wr_actions :: "action_result list"

record sse_message =
  msg_type :: message_type
  msg_step :: "step option"
  msg_message :: "string option"
  msg_result :: "workflow_result option"
  msg_timestamp :: nat

record issue_params =
  ip_title :: string
  ip_body :: string
  ip_owner :: string
  ip_repo :: string

record issue_content =
  ic_title :: string
  ic_body :: string

text \<open>The body of \<^verbatim>\<open>POST /research-and-action\<close>, as the handler destructures it.\<close>

record request =
  req_query :: "string option"
  req_sessionId :: "string option"
  req_githubRepo :: "string option"

text \<open>
  A JavaScript value that may be \<^verbatim>\<open>undefined\<close> (the key is left out of the JSON),
  \<^verbatim>\<open>null\<close>, or a proper value: the three outcomes of
  \<^verbatim>\<open>githubAction.success ? githubAction.result?.issueUrl : null\<close>.
\<close>

datatype 'a js_value = Undefined | Null | Val 'a

record summary =
  sm_query :: string
  researchCompleted :: bool
  actionsExecuted :: nat
  successfulActions :: nat
  githubIssueUrl :: "string js_value"

record validation_body =
  vb_error :: string
  vb_details :: string

record success_body =
  sb_success :: bool
  sb_sessionId :: string
  sb_research :: research_result
  sb_actions :: "action_result list"
  sb_summary :: summary

record failure_body =
  fb_success :: bool
  fb_error :: string
  fb_details :: string
  fb_timestamp :: nat

datatype body = Rejected_body validation_body | Success_body success_body | Failure_body failure_body

record http_response =
  status_code :: nat
  json :: body

section \<open>The environment of one request\<close>

text \<open>
  What the code reads from outside itself is a parameter of the model.

  \<^item> \<open>clock\<close>: the reading of the system clock at the k-th time the process reads it
    (\<^verbatim>\<open>Date.now()\<close>, \<^verbatim>\<open>new Date()\<close>).
  \<^item> \<open>PICA_SECRET\<close>: the environment variable of that name.
  \<^item> \<open>createOpenAIService\<close>: \<^verbatim>\<open>server/services/openai.ts\<close> is the external research
    collaborator; its factory either throws (\<open>Inl\<close> the message of the Error) or gives
    a service whose two operations each throw or return.
  \<^item> \<open>vault_get\<close>: the outcome of \<^verbatim>\<open>GET /vault/connections?platform=github\<close>.
  \<^item> \<open>issues_post\<close>: the outcome of the passthrough \<^verbatim>\<open>POST\<close> for a URL, a payload and
    a connection key.
\<close>

record openai_service =
  generateResearch :: "research_query \<Rightarrow> string + research_result"
  generateGitHubIssueContent :: "string \<Rightarrow> string \<Rightarrow> string + issue_content"

text \<open>
  How an axios call can be rejected, by the fields \<^verbatim>\<open>createGitHubIssue\<close> looks at:
  \<open>Response_error status message statusText\<close> has \<^verbatim>\<open>error.response\<close> (with
  \<^verbatim>\<open>response.data?.message\<close> possibly absent), \<open>Request_error\<close> has only
  \<^verbatim>\<open>error.request\<close> (nothing came back: time-out, connection refused), and
  \<open>Other_error message\<close> has neither and carries \<^verbatim>\<open>error.message\<close>. An exception
  raised inside the \<^verbatim>\<open>try\<close> block by the code itself (a \<^verbatim>\<open>TypeError\<close>) is of the
  last kind.
\<close>

datatype axios_error =
  Response_error nat "string option" string
| Request_error
| Other_error string

datatype 'a axios_outcome = Resolved 'a | Rejected axios_error

record connection_row =
  cr_key :: string
  cr_platform :: string

record github_connection =
  connectionKey :: string
  platform :: string

record issue_data =
  id_title :: string
  id_body :: string
  id_labels :: "string list"

record issue_json =
  html_url :: "string option"
  number :: "int option"

text \<open>
  \<open>vault_get\<close> resolves to \<^verbatim>\<open>response.data.rows\<close>, \<open>None\<close> when the body has no
  \<^verbatim>\<open>rows\<close>.
\<close>

record env =
  clock :: "nat \<Rightarrow> nat"
  PICA_SECRET :: "string option"
  createOpenAIService :: "string + openai_service"
  vault_get :: "connection_row list option axios_outcome"
  issues_post :: "string \<Rightarrow> issue_data \<Rightarrow> string \<Rightarrow> issue_json axios_outcome"

section \<open>Server state\<close>

text \<open>
  An express \<^verbatim>\<open>Response\<close> kept open as an event stream: the frames written to it so
  far and whether its socket still takes writes. Each frame
  \<^verbatim>\<open>data: ${JSON.stringify(data)}\n\n\<close> is represented by the message it serialises.
\<close>

record channel =
  alive :: bool
  frames :: "sse_message list"

text \<open>The collaborator operations the handler invokes, with their arguments.\<close>

datatype call =
  Call_generateResearch research_query
| Call_generateGitHubIssueContent string string
| Call_createGitHubIssue issue_params

text \<open>
  \<open>sseClients\<close> is the module-level \<^verbatim>\<open>Map<string, Response>\<close>. \<open>clock_reads\<close> counts the
  readings of the clock taken so far. \<open>published\<close> and \<open>calls\<close> are histories kept for
  the statements below: every invocation of \<^verbatim>\<open>sendSSEUpdate\<close> with its arguments, and
  every collaborator operation the handler invoked, both in order.
\<close>

record server_state =
  sseClients :: "string \<rightharpoonup> channel"
  clock_reads :: nat
  published :: "(string \<times> sse_message) list"
  calls :: "call list"

definition new_Date :: "env \<Rightarrow> server_state \<Rightarrow> nat \<times> server_state" where
  "new_Date e s = (clock e (clock_reads s), s\<lparr>clock_reads := Suc (clock_reads s)\<rparr>)"

text \<open>JavaScript truthiness of an optional string: \<^verbatim>\<open>undefined\<close> and \<^verbatim>\<open>""\<close> are falsy.\<close>

definition truthy :: "string option \<Rightarrow> bool" where
  "truthy v = (case v of None \<Rightarrow> False | Some x \<Rightarrow> x \<noteq> [])"

section \<open>The event stream (server/routes/api.ts, lines 9-52)\<close>

text \<open>
  \<^verbatim>\<open>res.write(chunk)\<close> with a string chunk: the frame is appended when the socket
  takes writes; otherwise nothing is written and the call returns \<^verbatim>\<open>false\<close> (node
  reports the failure through the stream's error event, not by throwing).
\<close>

definition res_write :: "channel \<Rightarrow> sse_message \<Rightarrow> channel \<times> bool" where
  "res_write res m =
     (if alive res then (res\<lparr>frames := frames res @ [m]\<rparr>, True) else (res, False))"

text \<open>
  \<^verbatim>\<open>
  function sendSSEUpdate(sessionId: string, data: any) {
    const client = sseClients.get(sessionId);
    if (client) {
      client.write(`data: ${JSON.stringify(data)}\n\n`);
    }
  }
  \<close>
  The value \<^verbatim>\<open>client.write\<close> returns is dropped, as in the source.
\<close>

definition sendSSEUpdate :: "string \<Rightarrow> sse_message \<Rightarrow> server_state \<Rightarrow> server_state" where
  "sendSSEUpdate sessionId data s =
     (let s' = s\<lparr>published := published s @ [(sessionId, data)]\<rparr> in
      case sseClients s' sessionId of
        None \<Rightarrow> s'
      | Some client \<Rightarrow>
          s'\<lparr>sseClients := (sseClients s')(sessionId \<mapsto> fst (res_write client data))\<rparr>)"

text \<open>
  \<^verbatim>\<open>GET /sse/:sessionId\<close>: the new response \<open>res\<close> replaces any channel stored under the
  id and receives the \<^verbatim>\<open>connected\<close> frame. The request's \<^verbatim>\<open>close\<close> event deletes the
  entry.
\<close>

definition sse_connect :: "env \<Rightarrow> string \<Rightarrow> channel \<Rightarrow> server_state \<Rightarrow> server_state" where
  "sse_connect e sessionId res s =
     (let (t, s1) = new_Date e s;
          hello = \<lparr>msg_type = t_connected, msg_step = None,
                   msg_message = Some ''Connected to research stream'',
                   msg_result = None, msg_timestamp = t\<rparr>
      in s1\<lparr>sseClients := (sseClients s1)(sessionId \<mapsto> fst (res_write res hello))\<rparr>)"

definition sse_close :: "string \<Rightarrow> server_state \<Rightarrow> server_state" where
  "sse_close sessionId s = s\<lparr>sseClients := (sseClients s)(sessionId := None)\<rparr>"

section \<open>The action collaborator (server/services/pica.ts)\<close>

text \<open>Template literals render a number in decimal.\<close>

fun dec :: "nat \<Rightarrow> string" where
  "dec n = (if n < 10 then [''0123456789'' ! n] else dec (n div 10) @ [''0123456789'' ! (n mod 10)])"

declare dec.simps [simp del]

record pica_config =
  secret :: string
  serverUrl :: "string option"
  port :: "nat option"

text \<open>
  \<^verbatim>\<open>createPicaService\<close> (lines 354-367): throws when \<^verbatim>\<open>PICA_SECRET\<close> is unset or empty.
\<close>

definition createPicaService :: "env \<Rightarrow> string + pica_config" where
  "createPicaService e =
     (case PICA_SECRET e of
        None \<Rightarrow> Inl ''PICA_SECRET environment variable is required''
      | Some sec \<Rightarrow>
          if sec = [] then Inl ''PICA_SECRET environment variable is required''
          else Inr \<lparr>secret = sec, serverUrl = Some ''https://api.picaos.com/v1'', port = None\<rparr>)"

text \<open>
  \<^verbatim>\<open>getGitHubConnection\<close> (lines 133-172): the first row when there is one; on a
  rejected request the placeholder connection for status 401 and \<^verbatim>\<open>null\<close> otherwise.
  It catches every rejection itself.
\<close>

definition getGitHubConnection :: "env \<Rightarrow> github_connection option" where
  "getGitHubConnection e =
     (case vault_get e of
        Resolved rows \<Rightarrow>
          (case rows of
             Some (githubConnection # _) \<Rightarrow>
               Some \<lparr>connectionKey = cr_key githubConnection,
                     platform = cr_platform githubConnection\<rparr>
           | _ \<Rightarrow> None)
      | Rejected err \<Rightarrow>
          (case err of
             Response_error st _ _ \<Rightarrow>
               if st = 401 then Some \<lparr>connectionKey = ''mcp-fallback'', platform = ''github''\<rparr>
               else None
           | _ \<Rightarrow> None))"

text \<open>
  The \<^verbatim>\<open>catch\<close> block of \<^verbatim>\<open>createGitHubIssue\<close> (lines 256-273): the text it derives
  from the error. \<^verbatim>\<open>data?.message || statusText\<close> falls back to the status text when the
  message is absent or empty.
\<close>

definition errorMessage :: "issue_params \<Rightarrow> axios_error \<Rightarrow> string" where
  "errorMessage params err =
     (case err of
        Response_error st msg statusText \<Rightarrow>
          if st = 401 then
            ''Authentication failed. Please check your Pica API key and GitHub connection.''
          else if st = 404 then
            ''Repository '' @ ip_owner params @ ''/'' @ ip_repo params
              @ '' not found or not accessible.''
          else
            ''GitHub API error: '' @ dec st @ '' - ''
              @ (case msg of
                   None \<Rightarrow> statusText
                 | Some m \<Rightarrow> if m = [] then statusText else m)
      | Request_error \<Rightarrow> ''Network error: Unable to reach GitHub API via Pica''
      | Other_error m \<Rightarrow> m)"

definition failedResult :: "string \<Rightarrow> nat \<Rightarrow> action_result" where
  "failedResult msg t =
     \<lparr>ar_type = github_issue, ar_platform = ''github'', ar_success = False,
      ar_result = None, ar_error = Some msg, ar_timestamp = t\<rparr>"

text \<open>
  The \<^verbatim>\<open>try\<close> block of \<^verbatim>\<open>createGitHubIssue\<close> (lines 180-252). \<open>Inl\<close> is what it
  throws: the Error of line 189 when there is no connection (it has neither
  \<^verbatim>\<open>response\<close> nor \<^verbatim>\<open>request\<close>), or the rejection of the \<^verbatim>\<open>POST\<close>. A result is
  stamped with a reading of the clock when it is built.
\<close>

definition try_createGitHubIssue ::
  "env \<Rightarrow> issue_params \<Rightarrow> server_state \<Rightarrow> (axios_error + action_result) \<times> server_state" where
  "try_createGitHubIssue e params s =
     (case getGitHubConnection e of
        None \<Rightarrow>
          (Inl (Other_error
             (''No GitHub connection found. Please connect GitHub in your Pica dashboard at: ''
               @ ''https://app.picaos.com/connections'')), s)
      | Some githubConnection \<Rightarrow>
          if connectionKey githubConnection = ''mcp-fallback'' then
            (let (t, s') = new_Date e s in
             (Inr \<lparr>ar_type = github_issue, ar_platform = ''github'', ar_success = False,
                   ar_result = None,
                   ar_error = Some
                     (''Pica API authentication issue. Please check your API key at ''
                       @ ''https://app.picaos.com/settings/api-keys and ensure GitHub is ''
                       @ ''connected at https://app.picaos.com/connections''),
                   ar_timestamp = t\<rparr>, s'))
          else
            (case issues_post e
               (''/passthrough/repos/'' @ ip_owner params @ ''/'' @ ip_repo params @ ''/issues'')
               \<lparr>id_title = ip_title params, id_body = ip_body params,
                id_labels = [''research'', ''ai-generated'']\<rparr>
               (connectionKey githubConnection) of
               Rejected err \<Rightarrow> (Inl err, s)
             | Resolved response \<Rightarrow>
                 (let (t, s') = new_Date e s in
                  (Inr \<lparr>ar_type = github_issue, ar_platform = ''github'', ar_success = True,
                        ar_result = Some
                          \<lparr>issueNumber = number response, issueUrl = html_url response,
                           title = Some (ip_title params),
                           repository = Some (ip_owner params @ ''/'' @ ip_repo params)\<rparr>,
                        ar_error = None, ar_timestamp = t\<rparr>, s'))))"

text \<open>
  \<^verbatim>\<open>createGitHubIssue\<close> (lines 174-285): the \<^verbatim>\<open>try\<close> block, and the \<^verbatim>\<open>catch\<close> block
  (lines 253-284) that turns whatever was thrown into a failed result.
\<close>

definition createGitHubIssue ::
  "env \<Rightarrow> issue_params \<Rightarrow> server_state \<Rightarrow> action_result \<times> server_state" where
  "createGitHubIssue e params s =
     (case try_createGitHubIssue e params s of
        (Inr result, s') \<Rightarrow> (result, s')
      | (Inl err, s1) \<Rightarrow>
          (let (t, s2) = new_Date e s1 in (failedResult (errorMessage params err) t, s2)))"

section \<open>The workflow (server/routes/api.ts, lines 55-211)\<close>

text \<open>\<^verbatim>\<open>githubRepo.split("/")\<close>: the pieces between the separators, never an empty list.\<close>

fun split :: "char \<Rightarrow> string \<Rightarrow> string list" where
  "split c [] = [[]]"
| "split c (x # xs) =
     (if x = c then [] # split c xs
      else (case split c xs of [] \<Rightarrow> [[x]] | y # ys \<Rightarrow> (x # y) # ys))"

text \<open>
  Lines 139-146:
  \<^verbatim>\<open>
  let [owner, repo] = githubRepo.split("/");
  if (!repo) { owner = "your-username"; repo = githubRepo; }
  \<close>
  \<^verbatim>\<open>repo\<close> is the second piece; it is falsy when there is none or when it is empty.
\<close>

definition parse_githubRepo :: "string \<Rightarrow> string \<times> string" where
  "parse_githubRepo githubRepo =
     (case split CHR ''/'' githubRepo of
        owner # repo # _ \<Rightarrow>
          if repo = [] then (''your-username'', githubRepo) else (owner, repo)
      | _ \<Rightarrow> (''your-username'', githubRepo))"

text \<open>
  The guarded publication that the handler repeats,
  \<^verbatim>\<open>if (sessionId) { sendSSEUpdate(sessionId, {..., timestamp: new Date().toISOString()}) }\<close>:
  the message is built (reading the clock) only when the session id is truthy.
\<close>

definition emit ::
  "string option \<Rightarrow> (nat \<Rightarrow> sse_message) \<Rightarrow> env \<Rightarrow> server_state \<Rightarrow> server_state" where
  "emit sessionId mk e s =
     (case sessionId of
        None \<Rightarrow> s
      | Some sid \<Rightarrow>
          if sid = [] then s
          else (let (t, s1) = new_Date e s in sendSSEUpdate sid (mk t) s1))"

definition status_message :: "step \<Rightarrow> string \<Rightarrow> nat \<Rightarrow> sse_message" where
  "status_message st m t =
     \<lparr>msg_type = t_status, msg_step = Some st, msg_message = Some m,
      msg_result = None, msg_timestamp = t\<rparr>"

definition invoke :: "call \<Rightarrow> server_state \<Rightarrow> server_state" where
  "invoke c s = s\<lparr>calls := calls s @ [c]\<rparr>"

text \<open>Step 5 and the final result (lines 157-188).\<close>

definition complete_message ::
  "research_result \<Rightarrow> action_result list \<Rightarrow> action_result \<Rightarrow> nat \<Rightarrow> sse_message" where
  "complete_message researchResult actionResults githubAction t =
     \<lparr>msg_type = t_complete, msg_step = Some complete,
      msg_message = Some
        (if ar_success githubAction then ''GitHub issue created successfully!''
         else ''GitHub issue creation failed: ''
           @ (case ar_error githubAction of None \<Rightarrow> ''undefined'' | Some m \<Rightarrow> m)),
      msg_result = Some \<lparr>wr_research = researchResult, wr_actions = actionResults\<rparr>,
      msg_timestamp = t\<rparr>"

definition final_result ::
  "string \<Rightarrow> string \<Rightarrow> research_result \<Rightarrow> action_result list \<Rightarrow> action_result \<Rightarrow> http_response"
  where
  "final_result query sid researchResult actionResults githubAction =
     \<lparr>status_code = 200,
      json = Success_body
        \<lparr>sb_success = True, sb_sessionId = sid, sb_research = researchResult,
         sb_actions = actionResults,
         sb_summary =
           \<lparr>sm_query = query,
            researchCompleted = (rr_status researchResult = completed),
            actionsExecuted = length actionResults,
            successfulActions = length (filter ar_success actionResults),
            githubIssueUrl =
              (if ar_success githubAction then
                 (case ar_result githubAction of
                    None \<Rightarrow> Undefined
                  | Some r \<Rightarrow> (case issueUrl r of None \<Rightarrow> Undefined | Some u \<Rightarrow> Val u))
               else Null)\<rparr>\<rparr>\<rparr>"

text \<open>
  The parameters of the issue-creation call (lines 60, 139-153): the repository defaults to
  \<^verbatim>\<open>"test-repo"\<close> when the body has no \<^verbatim>\<open>githubRepo\<close>.
\<close>

definition issue_params_of :: "request \<Rightarrow> issue_content \<Rightarrow> issue_params" where
  "issue_params_of req issueContent =
     (let githubRepo = (case req_githubRepo req of None \<Rightarrow> ''test-repo'' | Some g \<Rightarrow> g);
          (owner, repo) = parse_githubRepo githubRepo
      in \<lparr>ip_title = ic_title issueContent, ip_body = ic_body issueContent,
          ip_owner = owner, ip_repo = repo\<rparr>)"

text \<open>Step 4 (lines 129-155), continued by step 5. Nothing here throws.\<close>

definition create_issue_step ::
  "env \<Rightarrow> request \<Rightarrow> string \<Rightarrow> string \<Rightarrow> research_result \<Rightarrow> issue_content \<Rightarrow> server_state
     \<Rightarrow> http_response \<times> server_state" where
  "create_issue_step e req query sid researchResult issueContent s =
     (let s1 = emit (req_sessionId req) (status_message executing ''Creating GitHub issue...'') e s;
          params = issue_params_of req issueContent;
          (githubAction, s2) = createGitHubIssue e params (invoke (Call_createGitHubIssue params) s1);
          actionResults = [] @ [githubAction];
          s3 = emit (req_sessionId req)
                 (complete_message researchResult actionResults githubAction) e s2
      in (final_result query sid researchResult actionResults githubAction, s3))"

definition query_required :: http_response where
  "query_required =
     \<lparr>status_code = 400,
      json = Rejected_body
        \<lparr>vb_error = ''Query is required'', vb_details = ''Please provide a research query''\<rparr>\<rparr>"

text \<open>
  Line 76, \<^verbatim>\<open>sessionId || `session_${Date.now()}`\<close>: the clock is read only when the
  session id is falsy.
\<close>

definition session_or_generated ::
  "env \<Rightarrow> string option \<Rightarrow> server_state \<Rightarrow> string \<times> server_state" where
  "session_or_generated e sessionId s =
     (case sessionId of
        None \<Rightarrow> (let (t, s') = new_Date e s in (''session_'' @ dec t, s'))
      | Some sid \<Rightarrow>
          if sid = [] then (let (t, s') = new_Date e s in (''session_'' @ dec t, s'))
          else (sid, s))"

text \<open>
  Steps 1 and 2 (lines 88-112): the two status events, the research call, and the Error
  thrown for a result whose status is \<^verbatim>\<open>failed\<close>. \<open>Inl\<close> is an Error thrown, with its
  message.
\<close>

definition research_step ::
  "env \<Rightarrow> request \<Rightarrow> openai_service \<Rightarrow> research_query \<Rightarrow> server_state
     \<Rightarrow> (string + research_result) \<times> server_state" where
  "research_step e req openaiService researchQuery s =
     (let s1 = emit (req_sessionId req) (status_message analyzing ''Analyzing your query...'') e s;
          s2 = emit (req_sessionId req)
                 (status_message researching ''Conducting deep research with OpenAI...'') e s1;
          s3 = invoke (Call_generateResearch researchQuery) s2
      in
      (case generateResearch openaiService researchQuery of
         Inl err \<Rightarrow> (Inl err, s3)
       | Inr researchResult \<Rightarrow>
           if rr_status researchResult = failed then (Inl (rr_findings researchResult), s3)
           else (Inr researchResult, s3)))"

text \<open>Step 3 (lines 114-127).\<close>

definition plan_step ::
  "env \<Rightarrow> request \<Rightarrow> openai_service \<Rightarrow> research_result \<Rightarrow> string \<Rightarrow> server_state
     \<Rightarrow> (string + issue_content) \<times> server_state" where
  "plan_step e req openaiService researchResult query s =
     (let s1 = emit (req_sessionId req)
                 (status_message planning ''Planning GitHub issue creation...'') e s;
          s2 = invoke (Call_generateGitHubIssueContent (rr_findings researchResult) query) s1
      in (generateGitHubIssueContent openaiService (rr_findings researchResult) query, s2))"

text \<open>
  The \<^verbatim>\<open>try\<close> block (lines 56-188): validation, the research query, the two service
  factories, then the steps in order. \<open>Inr\<close> is the response sent.
\<close>

definition try_block ::
  "env \<Rightarrow> request \<Rightarrow> server_state \<Rightarrow> (string + http_response) \<times> server_state" where
  "try_block e req s =
     (case req_query req of
        None \<Rightarrow> (Inr query_required, s)
      | Some query \<Rightarrow>
          if query = [] then (Inr query_required, s)
          else
            (let (sid, s0) = session_or_generated e (req_sessionId req) s;
                 researchQuery = \<lparr>rq_query = query, rq_userId = None, rq_sessionId = Some sid\<rparr>
             in
             (case createOpenAIService e of
                Inl err \<Rightarrow> (Inl err, s0)
              | Inr openaiService \<Rightarrow>
                  (case createPicaService e of
                     Inl err \<Rightarrow> (Inl err, s0)
                   | Inr picaService \<Rightarrow>
                       (case research_step e req openaiService researchQuery s0 of
                          (Inl err, s3) \<Rightarrow> (Inl err, s3)
                        | (Inr researchResult, s3) \<Rightarrow>
                            (case plan_step e req openaiService researchResult query s3 of
                               (Inl err, s5) \<Rightarrow> (Inl err, s5)
                             | (Inr issueContent, s5) \<Rightarrow>
                                 (let (res, s6) =
                                        create_issue_step e req query sid researchResult
                                          issueContent s5
                                  in (Inr res, s6))))))))"

text \<open>
  The \<^verbatim>\<open>catch\<close> block (lines 189-210) for an Error with message \<open>message\<close>: the
  failure response is built (one reading of the clock), the \<^verbatim>\<open>error\<close> event is sent if
  the request carried a session id, and the response goes out with status 500.
\<close>

definition error_message :: "string \<Rightarrow> nat \<Rightarrow> sse_message" where
  "error_message details t =
     \<lparr>msg_type = t_error, msg_step = None, msg_message = Some details,
      msg_result = None, msg_timestamp = t\<rparr>"

definition catch_block ::
  "env \<Rightarrow> request \<Rightarrow> string \<Rightarrow> server_state \<Rightarrow> http_response \<times> server_state" where
  "catch_block e req message s =
     (let (t, s1) = new_Date e s;
          errorResponse =
            \<lparr>fb_success = False, fb_error = ''Research and action workflow failed'',
             fb_details = message, fb_timestamp = t\<rparr>;
          s2 = emit (req_sessionId req) (error_message (fb_details errorResponse)) e s1
      in (\<lparr>status_code = 500, json = Failure_body errorResponse\<rparr>, s2))"

text \<open>The handler of \<^verbatim>\<open>POST /research-and-action\<close> (lines 55-211).\<close>

definition research_and_action ::
  "env \<Rightarrow> request \<Rightarrow> server_state \<Rightarrow> http_response \<times> server_state" where
  "research_and_action e req s =
     (case try_block e req s of
        (Inr res, s') \<Rightarrow> (res, s')
      | (Inl message, s1) \<Rightarrow> catch_block e req message s1)"

text \<open>What one run of the handler adds to the two histories.\<close>

definition run_events :: "env \<Rightarrow> request \<Rightarrow> server_state \<Rightarrow> (string \<times> sse_message) list" where
  "run_events e req s =
     drop (length (published s)) (published (snd (research_and_action e req s)))"

definition run_calls :: "env \<Rightarrow> request \<Rightarrow> server_state \<Rightarrow> call list" where
  "run_calls e req s = drop (length (calls s)) (calls (snd (research_and_action e req s)))"

section \<open>Notions used in the statements\<close>

text \<open>
  The events a request with session id \<open>sessionId\<close> publishes for the messages \<open>ms\<close>:
  none when the id is falsy, each message addressed to the id otherwise.
\<close>

definition addressed :: "string option \<Rightarrow> sse_message list \<Rightarrow> (string \<times> sse_message) list" where
  "addressed sessionId ms =
     (case sessionId of None \<Rightarrow> [] | Some sid \<Rightarrow> if sid = [] then [] else map (Pair sid) ms)"

text \<open>
  The result step 4 obtains from \<^verbatim>\<open>createGitHubIssue\<close> when it starts in state \<open>s\<close>: the
  call comes after the \<^verbatim>\<open>executing\<close> event, which reads the clock once if it is sent.
\<close>

definition action_of :: "env \<Rightarrow> request \<Rightarrow> issue_content \<Rightarrow> server_state \<Rightarrow> action_result" where
  "action_of e req ic s =
     fst (createGitHubIssue e (issue_params_of req ic)
       (s\<lparr>clock_reads := (if truthy (req_sessionId req) then Suc (clock_reads s) else clock_reads s)\<rparr>))"

section \<open>A concrete run\<close>

text \<open>
  The scenario of the specification: the query \<open>Research X\<close> on session \<open>s1\<close> for the
  repository \<open>acme/widgets\<close>, with collaborators that succeed, and variations of it.
\<close>

definition widget_research :: research_result where
  "widget_research =
     \<lparr>rr_id = ''r1'', rr_query = ''Research X'', rr_findings = ''found'', rr_actions = [],
      rr_timestamp = ''2024-01-01T00:00:00.000Z'', rr_status = completed\<rparr>"

definition widget_service :: openai_service where
  "widget_service =
     \<lparr>generateResearch = (\<lambda>q. Inr widget_research),
      generateGitHubIssueContent = (\<lambda>f q. Inr \<lparr>ic_title = ''T'', ic_body = ''B''\<rparr>)\<rparr>"

definition widget_env :: env where
  "widget_env =
     \<lparr>clock = (\<lambda>k. 1000 + k), PICA_SECRET = Some ''sk'',
      createOpenAIService = Inr widget_service,
      vault_get = Resolved (Some [\<lparr>cr_key = ''key1'', cr_platform = ''github''\<rparr>]),
      issues_post = (\<lambda>u d k. Resolved \<lparr>html_url = Some ''https://github.com/i/7'', number = Some 7\<rparr>)\<rparr>"

definition unauthorized_env :: env where
  "unauthorized_env = widget_env\<lparr>vault_get := Rejected (Response_error 401 None ''Unauthorized'')\<rparr>"

definition missing_repo_env :: env where
  "missing_repo_env =
     widget_env\<lparr>issues_post :=
       (\<lambda>u d k. Rejected (Response_error 404 (Some ''Not Found'') ''Not Found''))\<rparr>"

definition outage_research :: research_result where
  "outage_research =
     widget_research\<lparr>rr_findings := ''upstream unavailable'', rr_status := failed\<rparr>"

definition outage_service :: openai_service where
  "outage_service = widget_service\<lparr>generateResearch := (\<lambda>q. Inr outage_research)\<rparr>"

definition outage_env :: env where
  "outage_env = widget_env\<lparr>createOpenAIService := Inr outage_service\<rparr>"

definition widget_request :: request where
  "widget_request =
     \<lparr>req_query = Some ''Research X'', req_sessionId = Some ''s1'',
      req_githubRepo = Some ''acme/widgets''\<rparr>"

definition idle_state :: server_state where
  "idle_state = \<lparr>sseClients = Map.empty, clock_reads = 0, published = [], calls = []\<rparr>"

definition anonymous_request :: request where
  "anonymous_request = widget_request\<lparr>req_sessionId := None\<rparr>"

text \<open>A registry whose channel for \<open>s1\<close> no longer takes writes.\<close>

definition stale_state :: server_state where
  "stale_state = idle_state\<lparr>sseClients := [''s1'' \<mapsto> \<lparr>alive = False, frames = []\<rparr>]\<rparr>"

section \<open>Effects of the building blocks\<close>

lemma addressed_falsy: "\<not> truthy sessionId \<Longrightarrow> addressed sessionId ms = []"
  by (cases sessionId) (simp_all add: addressed_def truthy_def)

lemma addressed_Some: "sid \<noteq> [] \<Longrightarrow> addressed (Some sid) ms = map (Pair sid) ms"
  by (simp add: addressed_def)

lemma emit_falsy: "\<not> truthy sessionId \<Longrightarrow> emit sessionId mk e s = s"
  by (cases sessionId) (simp_all add: emit_def truthy_def)

lemma emit_Some:
  "sid \<noteq> [] \<Longrightarrow>
   emit (Some sid) mk e s =
     sendSSEUpdate sid (mk (clock e (clock_reads s))) (s\<lparr>clock_reads := Suc (clock_reads s)\<rparr>)"
  by (simp add: emit_def new_Date_def)

lemma session_supplied: "sid \<noteq> [] \<Longrightarrow> session_or_generated e (Some sid) s = (sid, s)"
  by (simp add: session_or_generated_def)

lemma session_generated:
  "\<not> truthy sessionId \<Longrightarrow>
   session_or_generated e sessionId s =
     (''session_'' @ dec (clock e (clock_reads s)), s\<lparr>clock_reads := Suc (clock_reads s)\<rparr>)"
  by (cases sessionId) (simp_all add: session_or_generated_def truthy_def new_Date_def)

lemma session_or_generated_frame:
  "published (snd (session_or_generated e sessionId s)) = published s
   \<and> calls (snd (session_or_generated e sessionId s)) = calls s
   \<and> sseClients (snd (session_or_generated e sessionId s)) = sseClients s"
  by (simp add: session_or_generated_def new_Date_def split: option.split)

lemma published_sendSSEUpdate:
  "published (sendSSEUpdate sid m s) = published s @ [(sid, m)]"
  by (simp add: sendSSEUpdate_def Let_def split: option.split)

lemma calls_sendSSEUpdate: "calls (sendSSEUpdate sid m s) = calls s"
  by (simp add: sendSSEUpdate_def Let_def split: option.split)

lemma clock_reads_sendSSEUpdate: "clock_reads (sendSSEUpdate sid m s) = clock_reads s"
  by (simp add: sendSSEUpdate_def Let_def split: option.split)

lemma calls_emit: "calls (emit sessionId mk e s) = calls s"
  by (simp add: emit_def new_Date_def calls_sendSSEUpdate split: option.split)

lemma clock_reads_emit:
  "clock_reads (emit sessionId mk e s) =
     (if truthy sessionId then Suc (clock_reads s) else clock_reads s)"
  by (simp add: emit_def new_Date_def truthy_def clock_reads_sendSSEUpdate split: option.split)

lemma published_emit:
  "published (emit sessionId mk e s) =
     published s @ addressed sessionId [mk (clock e (clock_reads s))]"
  by (simp add: emit_def new_Date_def addressed_def published_sendSSEUpdate split: option.split)

text \<open>
  Publishing to a session with no channel, or with a channel that no longer takes writes,
  changes nothing but the history; with a live channel the frame is appended to it.
\<close>

lemma sendSSEUpdate_unregistered:
  "sseClients s sid = None \<Longrightarrow>
   sendSSEUpdate sid m s = s\<lparr>published := published s @ [(sid, m)]\<rparr>"
  by (simp add: sendSSEUpdate_def)

lemma sendSSEUpdate_failed_write:
  "sseClients s sid = Some c \<Longrightarrow> \<not> alive c \<Longrightarrow>
   sendSSEUpdate sid m s = s\<lparr>published := published s @ [(sid, m)]\<rparr>"
  by (simp add: sendSSEUpdate_def res_write_def map_upd_triv)

lemma sendSSEUpdate_delivered:
  "sseClients s sid = Some c \<Longrightarrow> alive c \<Longrightarrow>
   sseClients (sendSSEUpdate sid m s) = (sseClients s)(sid \<mapsto> c\<lparr>frames := frames c @ [m]\<rparr>)"
  by (simp add: sendSSEUpdate_def res_write_def)

subsection \<open>createGitHubIssue\<close>

lemma snd_createGitHubIssue:
  "snd (createGitHubIssue e p s) = s\<lparr>clock_reads := Suc (clock_reads s)\<rparr>"
  by (simp add: createGitHubIssue_def try_createGitHubIssue_def new_Date_def
      split: option.split axios_outcome.split)

lemma fst_createGitHubIssue_clock:
  "clock_reads s = clock_reads s' \<Longrightarrow>
   fst (createGitHubIssue e p s) = fst (createGitHubIssue e p s')"
  by (simp add: createGitHubIssue_def try_createGitHubIssue_def new_Date_def
      split: option.split axios_outcome.split)

lemma createGitHubIssue_gated:
  "ar_success (fst (createGitHubIssue e p s)) = (ar_error (fst (createGitHubIssue e p s)) = None)
   \<and> ar_success (fst (createGitHubIssue e p s)) = (ar_result (fst (createGitHubIssue e p s)) \<noteq> None)"
  by (simp add: createGitHubIssue_def try_createGitHubIssue_def new_Date_def failedResult_def
      split: option.split axios_outcome.split)

lemma createGitHubIssue_repository:
  assumes "ar_success (fst (createGitHubIssue e p s))"
  shows "\<exists>r. ar_result (fst (createGitHubIssue e p s)) = Some r
    \<and> repository r = Some (ip_owner p @ ''/'' @ ip_repo p) \<and> title r = Some (ip_title p)"
  using assms
  by (auto simp add: createGitHubIssue_def try_createGitHubIssue_def new_Date_def failedResult_def
      split: option.splits axios_outcome.splits if_splits)

lemma errorMessage_nonempty: "err \<noteq> Other_error [] \<Longrightarrow> errorMessage p err \<noteq> []"
  by (cases err) (simp_all add: errorMessage_def)

subsection \<open>Splitting the repository descriptor\<close>

lemma split_no_separator: "c \<notin> set xs \<Longrightarrow> split c xs = [xs]"
  by (induction xs) auto

lemma split_at_separator: "c \<notin> set xs \<Longrightarrow> split c (xs @ c # ys) = xs # split c ys"
  by (induction xs) auto

lemma split_first: "\<exists>rest. split c xs = takeWhile (\<lambda>x. x \<noteq> c) xs # rest"
  by (induction xs) (auto split: list.split)

lemma parse_githubRepo_no_slash:
  "CHR ''/'' \<notin> set d \<Longrightarrow> parse_githubRepo d = (''your-username'', d)"
  by (simp add: parse_githubRepo_def split_no_separator)

lemma parse_githubRepo_slash:
  assumes "CHR ''/'' \<notin> set own"
  shows "parse_githubRepo (own @ CHR ''/'' # rest) =
    (if takeWhile (\<lambda>x. x \<noteq> CHR ''/'') rest = [] then (''your-username'', own @ CHR ''/'' # rest)
     else (own, takeWhile (\<lambda>x. x \<noteq> CHR ''/'') rest))"
proof -
  obtain more where "split CHR ''/'' rest = takeWhile (\<lambda>x. x \<noteq> CHR ''/'') rest # more"
    using split_first by blast
  then show ?thesis
    using assms by (simp add: parse_githubRepo_def split_at_separator)
qed

lemma parse_githubRepo_owner_repo:
  assumes "CHR ''/'' \<notin> set own" and "CHR ''/'' \<notin> set rep" and "rep \<noteq> []"
  shows "parse_githubRepo (own @ ''/'' @ rep) = (own, rep)"
proof -
  have tw: "takeWhile (\<lambda>x. x \<noteq> CHR ''/'') rep = rep"
    using assms(2) by (auto simp: takeWhile_eq_all_conv)
  from assms(3) show ?thesis
    by (simp add: parse_githubRepo_slash [OF assms(1)] tw)
qed

subsection \<open>Steps 1 and 2\<close>

lemma fst_research_step:
  "fst (research_step e req svc rq s) =
     (case generateResearch svc rq of
        Inl err \<Rightarrow> Inl err
      | Inr rr \<Rightarrow> if rr_status rr = failed then Inl (rr_findings rr) else Inr rr)"
  by (simp add: research_step_def Let_def split: sum.split)

lemma snd_research_step:
  "snd (research_step e req svc rq s) =
     invoke (Call_generateResearch rq)
       (emit (req_sessionId req)
          (status_message researching ''Conducting deep research with OpenAI...'') e
          (emit (req_sessionId req) (status_message analyzing ''Analyzing your query...'') e s))"
  by (simp add: research_step_def Let_def split: sum.split)

lemma published_research_step:
  "published (snd (research_step e req svc rq s)) =
     published s @ addressed (req_sessionId req)
       [status_message analyzing ''Analyzing your query...'' (clock e (clock_reads s)),
        status_message researching ''Conducting deep research with OpenAI...''
          (clock e (Suc (clock_reads s)))]"
  by (cases "truthy (req_sessionId req)")
     (simp_all add: snd_research_step invoke_def published_emit clock_reads_emit addressed_falsy,
      simp add: addressed_def split: option.split)

lemma calls_research_step:
  "calls (snd (research_step e req svc rq s)) = calls s @ [Call_generateResearch rq]"
  by (simp add: snd_research_step invoke_def calls_emit)

lemma clock_reads_research_step:
  "clock_reads (snd (research_step e req svc rq s)) =
     (if truthy (req_sessionId req) then Suc (Suc (clock_reads s)) else clock_reads s)"
  by (simp add: snd_research_step invoke_def clock_reads_emit)

subsection \<open>Step 3\<close>

lemma fst_plan_step:
  "fst (plan_step e req svc rr q s) = generateGitHubIssueContent svc (rr_findings rr) q"
  by (simp add: plan_step_def Let_def)

lemma published_plan_step:
  "published (snd (plan_step e req svc rr q s)) =
     published s @ addressed (req_sessionId req)
       [status_message planning ''Planning GitHub issue creation...'' (clock e (clock_reads s))]"
  by (simp add: plan_step_def Let_def invoke_def published_emit)

lemma calls_plan_step:
  "calls (snd (plan_step e req svc rr q s)) =
     calls s @ [Call_generateGitHubIssueContent (rr_findings rr) q]"
  by (simp add: plan_step_def Let_def invoke_def calls_emit)

lemma clock_reads_plan_step:
  "clock_reads (snd (plan_step e req svc rr q s)) =
     (if truthy (req_sessionId req) then Suc (clock_reads s) else clock_reads s)"
  by (simp add: plan_step_def Let_def invoke_def clock_reads_emit)

subsection \<open>Steps 4 and 5\<close>

lemma action_of_eq:
  "fst (createGitHubIssue e (issue_params_of req ic)
         (invoke c (emit (req_sessionId req) mk e s))) = action_of e req ic s"
  unfolding action_of_def
  by (rule fst_createGitHubIssue_clock) (simp add: invoke_def clock_reads_emit)

lemma action_of_clock:
  "clock_reads s = clock_reads s' \<Longrightarrow> action_of e req ic s = action_of e req ic s'"
  unfolding action_of_def by (rule fst_createGitHubIssue_clock) simp

lemma create_issue_step_unfold:
  "create_issue_step e req q sid rr ic s =
     (final_result q sid rr [action_of e req ic s] (action_of e req ic s),
      emit (req_sessionId req)
        (complete_message rr [action_of e req ic s] (action_of e req ic s)) e
        (snd (createGitHubIssue e (issue_params_of req ic)
           (invoke (Call_createGitHubIssue (issue_params_of req ic))
             (emit (req_sessionId req)
                (status_message executing ''Creating GitHub issue...'') e s)))))"
proof -
  have "create_issue_step e req q sid rr ic s =
    (let p = issue_params_of req ic;
         r = createGitHubIssue e p
               (invoke (Call_createGitHubIssue p)
                 (emit (req_sessionId req)
                    (status_message executing ''Creating GitHub issue...'') e s))
     in (final_result q sid rr [fst r] (fst r),
         emit (req_sessionId req) (complete_message rr [fst r] (fst r)) e (snd r)))"
    by (simp add: create_issue_step_def Let_def split_beta)
  then show ?thesis
    by (simp add: Let_def action_of_eq)
qed

lemma fst_create_issue_step:
  "fst (create_issue_step e req q sid rr ic s) =
     final_result q sid rr [action_of e req ic s] (action_of e req ic s)"
  by (simp add: create_issue_step_unfold)

lemma published_create_issue_step:
  "published (snd (create_issue_step e req q sid rr ic s)) =
     published s @ addressed (req_sessionId req)
       [status_message executing ''Creating GitHub issue...'' (clock e (clock_reads s)),
        complete_message rr [action_of e req ic s] (action_of e req ic s)
          (clock e (Suc (Suc (clock_reads s))))]"
proof (cases "truthy (req_sessionId req)")
  case False
  then show ?thesis
    by (simp add: create_issue_step_unfold emit_falsy addressed_falsy
        snd_createGitHubIssue invoke_def)
next
  case True
  then obtain sid' where sid': "req_sessionId req = Some sid'" "sid' \<noteq> []"
    by (cases "req_sessionId req") (auto simp: truthy_def)
  show ?thesis
    using sid'
    by (simp add: create_issue_step_unfold snd_createGitHubIssue invoke_def published_emit
        clock_reads_emit addressed_Some truthy_def)
qed

lemma calls_create_issue_step:
  "calls (snd (create_issue_step e req q sid rr ic s)) =
     calls s @ [Call_createGitHubIssue (issue_params_of req ic)]"
  by (simp add: create_issue_step_unfold snd_createGitHubIssue invoke_def calls_emit)

subsection \<open>The catch block\<close>

lemma fst_catch_block:
  "fst (catch_block e req msg s) =
     \<lparr>status_code = 500,
      json = Failure_body
        \<lparr>fb_success = False, fb_error = ''Research and action workflow failed'',
         fb_details = msg, fb_timestamp = clock e (clock_reads s)\<rparr>\<rparr>"
  by (simp add: catch_block_def new_Date_def)

lemma published_catch_block:
  "published (snd (catch_block e req msg s)) =
     published s @ addressed (req_sessionId req)
       [error_message msg (clock e (Suc (clock_reads s)))]"
  by (simp add: catch_block_def new_Date_def published_emit)

lemma calls_catch_block: "calls (snd (catch_block e req msg s)) = calls s"
  by (simp add: catch_block_def new_Date_def calls_emit)

lemmas published_steps =
  published_research_step published_plan_step published_create_issue_step published_catch_block

lemmas calls_steps =
  calls_research_step calls_plan_step calls_create_issue_step calls_catch_block

text \<open>Without a session id the steps leave the registry and its channels alone.\<close>

lemma sseClients_steps_falsy:
  assumes "\<not> truthy (req_sessionId req)"
  shows "sseClients (snd (research_step e req svc rq s)) = sseClients s"
    and "sseClients (snd (plan_step e req svc rr q s)) = sseClients s"
    and "sseClients (snd (create_issue_step e req q sid rr ic s)) = sseClients s"
    and "sseClients (snd (catch_block e req msg s)) = sseClients s"
  using assms
  by (simp_all add: snd_research_step plan_step_def create_issue_step_unfold catch_block_def
      new_Date_def emit_falsy invoke_def snd_createGitHubIssue Let_def)

section \<open>The handler, path by path\<close>

lemma run_rejected:
  "\<not> truthy (req_query req) \<Longrightarrow> research_and_action e req s = (query_required, s)"
  by (cases "req_query req") (simp_all add: research_and_action_def try_block_def truthy_def)

lemma run_unfold:
  assumes "req_query req = Some q" and "q \<noteq> []"
  shows "research_and_action e req s =
    (let sid = fst (session_or_generated e (req_sessionId req) s);
         s0 = snd (session_or_generated e (req_sessionId req) s);
         rq = \<lparr>rq_query = q, rq_userId = None, rq_sessionId = Some sid\<rparr>
     in case createOpenAIService e of
          Inl err \<Rightarrow> catch_block e req err s0
        | Inr svc \<Rightarrow>
            (case createPicaService e of
               Inl err \<Rightarrow> catch_block e req err s0
             | Inr cfg \<Rightarrow>
                 (case fst (research_step e req svc rq s0) of
                    Inl err \<Rightarrow> catch_block e req err (snd (research_step e req svc rq s0))
                  | Inr rr \<Rightarrow>
                      (case generateGitHubIssueContent svc (rr_findings rr) q of
                         Inl err \<Rightarrow>
                           catch_block e req err
                             (snd (plan_step e req svc rr q (snd (research_step e req svc rq s0))))
                       | Inr ic \<Rightarrow>
                           create_issue_step e req q sid rr ic
                             (snd (plan_step e req svc rr q (snd (research_step e req svc rq s0))))))))"
proof -
  obtain sid s0 where ss: "session_or_generated e (req_sessionId req) s = (sid, s0)"
    by (cases "session_or_generated e (req_sessionId req) s")
  let ?rq = "\<lparr>rq_query = q, rq_userId = None, rq_sessionId = Some sid\<rparr>"
  have tb: "try_block e req s =
    (case createOpenAIService e of
       Inl err \<Rightarrow> (Inl err, s0)
     | Inr svc \<Rightarrow>
         (case createPicaService e of
            Inl err \<Rightarrow> (Inl err, s0)
          | Inr cfg \<Rightarrow>
              (case research_step e req svc ?rq s0 of
                 (Inl err, s3) \<Rightarrow> (Inl err, s3)
               | (Inr rr, s3) \<Rightarrow>
                   (case plan_step e req svc rr q s3 of
                      (Inl err, s5) \<Rightarrow> (Inl err, s5)
                    | (Inr ic, s5) \<Rightarrow>
                        (let (res, s6) = create_issue_step e req q sid rr ic s5
                         in (Inr res, s6))))))"
    using assms by (simp add: try_block_def ss)
  show ?thesis
  proof (cases "createOpenAIService e")
    case (Inl err)
    then show ?thesis using tb by (simp add: research_and_action_def ss)
  next
    case svc: (Inr svc)
    show ?thesis
    proof (cases "createPicaService e")
      case (Inl err)
      then show ?thesis using tb svc by (simp add: research_and_action_def ss)
    next
      case cfg: (Inr cfg)
      show ?thesis
      proof (cases "fst (research_step e req svc ?rq s0)")
        case (Inl err)
        then show ?thesis
          using tb svc cfg by (simp add: research_and_action_def split_beta ss)
      next
        case rr: (Inr rr)
        show ?thesis
        proof (cases "generateGitHubIssueContent svc (rr_findings rr) q")
          case (Inl err)
          then show ?thesis
            using tb svc cfg rr
            by (simp add: research_and_action_def split_beta fst_plan_step ss)
        next
          case (Inr ic)
          then show ?thesis
            using tb svc cfg rr
            by (simp add: research_and_action_def split_beta fst_plan_step ss)
        qed
      qed
    qed
  qed
qed

lemma run_reaches_step4:
  assumes "req_query req = Some q" and "q \<noteq> []"
    and "createOpenAIService e = Inr svc" and "createPicaService e = Inr cfg"
    and "generateResearch svc
           \<lparr>rq_query = q, rq_userId = None,
            rq_sessionId = Some (fst (session_or_generated e (req_sessionId req) s))\<rparr> = Inr rr"
    and "rr_status rr \<noteq> failed"
    and "generateGitHubIssueContent svc (rr_findings rr) q = Inr ic"
  shows "research_and_action e req s =
      create_issue_step e req q (fst (session_or_generated e (req_sessionId req) s)) rr ic
        (snd (plan_step e req svc rr q
          (snd (research_step e req svc
            \<lparr>rq_query = q, rq_userId = None,
             rq_sessionId = Some (fst (session_or_generated e (req_sessionId req) s))\<rparr>
            (snd (session_or_generated e (req_sessionId req) s))))))"
  using assms(3-7)
  by (simp add: run_unfold [OF assms(1,2)] Let_def fst_research_step)

lemma run_calls_reaches_step4:
  assumes "req_query req = Some q" and "q \<noteq> []"
    and "createOpenAIService e = Inr svc" and "createPicaService e = Inr cfg"
    and "generateResearch svc
           \<lparr>rq_query = q, rq_userId = None,
            rq_sessionId = Some (fst (session_or_generated e (req_sessionId req) s))\<rparr> = Inr rr"
    and "rr_status rr \<noteq> failed"
    and "generateGitHubIssueContent svc (rr_findings rr) q = Inr ic"
  shows "run_calls e req s =
     [Call_generateResearch
        \<lparr>rq_query = q, rq_userId = None,
         rq_sessionId = Some (fst (session_or_generated e (req_sessionId req) s))\<rparr>,
      Call_generateGitHubIssueContent (rr_findings rr) q,
      Call_createGitHubIssue (issue_params_of req ic)]"
  by (simp add: run_calls_def run_reaches_step4 [OF assms] calls_steps session_or_generated_frame)

lemma published_run:
  "\<exists>evs. published (snd (research_and_action e req s)) = published s @ evs"
proof (cases "truthy (req_query req)")
  case False
  then show ?thesis by (simp add: run_rejected)
next
  case True
  then obtain q where q: "req_query req = Some q" "q \<noteq> []"
    by (cases "req_query req") (auto simp: truthy_def)
  show ?thesis
    by (simp add: run_unfold [OF q] Let_def published_steps session_or_generated_frame
        split: sum.split)
qed

lemma run_events_append:
  "published (snd (research_and_action e req s)) = published s @ run_events e req s"
  using published_run [of e req s] by (auto simp: run_events_def)

lemma run_events_supplied:
  assumes "req_query req = Some q" and "q \<noteq> []"
    and "req_sessionId req = Some sid" and "sid \<noteq> []"
  shows "run_events e req s =
    (let rq = \<lparr>rq_query = q, rq_userId = None, rq_sessionId = Some sid\<rparr>;
         n = clock_reads s;
         before_research =
           [(sid, status_message analyzing ''Analyzing your query...'' (clock e n)),
            (sid, status_message researching ''Conducting deep research with OpenAI...''
                    (clock e (n + 1)))];
         before_planning =
           before_research @
           [(sid, status_message planning ''Planning GitHub issue creation...'' (clock e (n + 2)))]
     in case createOpenAIService e of
          Inl err \<Rightarrow> [(sid, error_message err (clock e (n + 1)))]
        | Inr svc \<Rightarrow>
            (case createPicaService e of
               Inl err \<Rightarrow> [(sid, error_message err (clock e (n + 1)))]
             | Inr cfg \<Rightarrow>
                 (case fst (research_step e req svc rq s) of
                    Inl err \<Rightarrow> before_research @ [(sid, error_message err (clock e (n + 3)))]
                  | Inr rr \<Rightarrow>
                      (case generateGitHubIssueContent svc (rr_findings rr) q of
                         Inl err \<Rightarrow> before_planning @ [(sid, error_message err (clock e (n + 4)))]
                       | Inr ic \<Rightarrow>
                           (let a = action_of e req ic
                                  (snd (plan_step e req svc rr q (snd (research_step e req svc rq s))))
                            in before_planning @
                               [(sid, status_message executing ''Creating GitHub issue...''
                                        (clock e (n + 3))),
                                (sid, complete_message rr [a] a (clock e (n + 5)))])))))"
  using assms(3,4)
  by (simp add: run_events_def run_unfold [OF assms(1,2)] Let_def published_steps
      session_supplied addressed_Some clock_reads_research_step clock_reads_plan_step truthy_def
      eval_nat_numeral split: sum.split)

subsection \<open>Runs without a session id\<close>

lemma silent_without_session:
  assumes "\<not> truthy (req_sessionId req)"
  shows "published (snd (research_and_action e req s)) = published s
    \<and> sseClients (snd (research_and_action e req s)) = sseClients s"
proof (cases "truthy (req_query req)")
  case False
  then show ?thesis by (simp add: run_rejected)
next
  case True
  then obtain q where q: "req_query req = Some q" "q \<noteq> []"
    by (cases "req_query req") (auto simp: truthy_def)
  show ?thesis
    using assms
    by (simp add: run_unfold [OF q] Let_def published_steps session_or_generated_frame
        addressed_falsy sseClients_steps_falsy split: sum.split)
qed

lemma generated_session_in_response:
  assumes "\<not> truthy (req_sessionId req)"
    and "json (fst (research_and_action e req s)) = Success_body b"
  shows "sb_sessionId b = ''session_'' @ dec (clock e (clock_reads s))"
proof (cases "truthy (req_query req)")
  case False
  with assms(2) show ?thesis by (simp add: run_rejected query_required_def)
next
  case True
  then obtain q where q: "req_query req = Some q" "q \<noteq> []"
    by (cases "req_query req") (auto simp: truthy_def)
  show ?thesis
    using assms
    by (auto simp add: run_unfold [OF q] Let_def fst_catch_block fst_create_issue_step
        session_generated final_result_def split: sum.splits)
qed

subsection \<open>The response does not depend on the registry\<close>

lemma session_or_generated_clock:
  assumes "clock_reads s = clock_reads s'"
  shows "fst (session_or_generated e sessionId s) = fst (session_or_generated e sessionId s')"
    and "clock_reads (snd (session_or_generated e sessionId s)) =
         clock_reads (snd (session_or_generated e sessionId s'))"
  using assms by (simp_all add: session_or_generated_def new_Date_def split: option.split)

lemma clock_reads_run_steps:
  assumes "clock_reads s = clock_reads s'"
  shows "clock_reads (snd (plan_step e req svc rr q (snd (research_step e req svc rq s)))) =
         clock_reads (snd (plan_step e req svc rr q (snd (research_step e req svc rq s'))))"
  using assms by (simp add: clock_reads_plan_step clock_reads_research_step)

lemma response_independent_of_registry:
  assumes "clock_reads s' = clock_reads s"
  shows "fst (research_and_action e req s') = fst (research_and_action e req s)
    \<and> run_calls e req s' = run_calls e req s"
proof (cases "truthy (req_query req)")
  case False
  then show ?thesis by (simp add: run_rejected run_calls_def)
next
  case True
  then obtain q where q: "req_query req = Some q" "q \<noteq> []"
    by (cases "req_query req") (auto simp: truthy_def)
  let ?sid = "fst (session_or_generated e (req_sessionId req) s)"
  let ?s0 = "snd (session_or_generated e (req_sessionId req) s)"
  let ?s0' = "snd (session_or_generated e (req_sessionId req) s')"
  have sid: "fst (session_or_generated e (req_sessionId req) s') = ?sid"
    and c0: "clock_reads ?s0' = clock_reads ?s0"
    using session_or_generated_clock [OF assms] by simp_all
  have act: "action_of e req ic (snd (plan_step e req svc rr q (snd (research_step e req svc rq ?s0'))))
      = action_of e req ic (snd (plan_step e req svc rr q (snd (research_step e req svc rq ?s0))))"
    for ic svc rr rq
    by (rule action_of_clock) (rule clock_reads_run_steps [OF c0])
  let ?rq = "\<lparr>rq_query = q, rq_userId = None, rq_sessionId = Some ?sid\<rparr>"
  have cs: "calls ?s0 = calls s" "calls ?s0' = calls s'"
    by (simp_all add: session_or_generated_frame)
  show ?thesis
  proof (cases "createOpenAIService e")
    case (Inl err)
    then show ?thesis
      by (simp add: run_calls_def run_unfold [OF q] Let_def sid c0 cs fst_catch_block
          calls_catch_block)
  next
    case svc: (Inr svc)
    show ?thesis
    proof (cases "createPicaService e")
      case (Inl err)
      then show ?thesis
        using svc
        by (simp add: run_calls_def run_unfold [OF q] Let_def sid c0 cs fst_catch_block
            calls_catch_block)
    next
      case cfg: (Inr cfg)
      show ?thesis
      proof (cases "fst (research_step e req svc ?rq ?s0)")
        case (Inl err)
        moreover from Inl have "fst (research_step e req svc ?rq ?s0') = Inl err"
          by (simp add: fst_research_step)
        ultimately show ?thesis
          using svc cfg
          by (simp add: run_calls_def run_unfold [OF q] Let_def sid c0 cs fst_catch_block
              calls_catch_block calls_research_step clock_reads_research_step)
      next
        case rr: (Inr rr)
        from rr have rr': "fst (research_step e req svc ?rq ?s0') = Inr rr"
          by (simp add: fst_research_step)
        show ?thesis
        proof (cases "generateGitHubIssueContent svc (rr_findings rr) q")
          case (Inl err)
          then show ?thesis
            using svc cfg rr rr'
            by (simp add: run_calls_def run_unfold [OF q] Let_def sid c0 cs fst_catch_block
                calls_steps clock_reads_research_step clock_reads_plan_step)
        next
          case (Inr ic)
          then show ?thesis
            using svc cfg rr rr'
            by (simp add: run_calls_def run_unfold [OF q] Let_def sid cs act
                fst_create_issue_step calls_steps)
        qed
      qed
    qed
  qed
qed

section \<open>Facts about the concrete run\<close>

lemma widget_run:
  "createOpenAIService widget_env = Inr widget_service"
  "createPicaService widget_env =
     Inr \<lparr>secret = ''sk'', serverUrl = Some ''https://api.picaos.com/v1'', port = None\<rparr>"
  "generateResearch widget_service rq = Inr widget_research"
  "generateGitHubIssueContent widget_service f q = Inr \<lparr>ic_title = ''T'', ic_body = ''B''\<rparr>"
  "rr_status widget_research \<noteq> failed"
  "rr_status widget_research = completed"
  by (simp_all add: widget_env_def widget_service_def widget_research_def createPicaService_def)

lemma widget_action:
  "fst (createGitHubIssue widget_env p s) =
     \<lparr>ar_type = github_issue, ar_platform = ''github'', ar_success = True,
      ar_result = Some \<lparr>issueNumber = Some 7, issueUrl = Some ''https://github.com/i/7'',
        title = Some (ip_title p), repository = Some (ip_owner p @ ''/'' @ ip_repo p)\<rparr>,
      ar_error = None, ar_timestamp = 1000 + clock_reads s\<rparr>"
  by (simp add: createGitHubIssue_def try_createGitHubIssue_def getGitHubConnection_def
      new_Date_def widget_env_def)

lemma widget_request_fields:
  "req_query widget_request = Some ''Research X''"
  "req_sessionId widget_request = Some ''s1''"
  "req_githubRepo widget_request = Some ''acme/widgets''"
  "req_query anonymous_request = Some ''Research X''"
  "req_sessionId anonymous_request = None"
  "req_githubRepo anonymous_request = Some ''acme/widgets''"
  by (simp_all add: widget_request_def anonymous_request_def)

lemma idle_state_fields:
  "sseClients idle_state sid = None" "clock_reads idle_state = 0"
  "published idle_state = []" "calls idle_state = []"
  "clock_reads stale_state = 0"
  "sseClients stale_state ''s1'' = Some \<lparr>alive = False, frames = []\<rparr>"
  by (simp_all add: idle_state_def stale_state_def)

lemma outage_run:
  "createOpenAIService outage_env = Inr outage_service"
  "createPicaService outage_env =
     Inr \<lparr>secret = ''sk'', serverUrl = Some ''https://api.picaos.com/v1'', port = None\<rparr>"
  "generateResearch outage_service rq = Inr outage_research"
  "rr_status outage_research = failed"
  "rr_findings outage_research = ''upstream unavailable''"
  "clock outage_env k = 1000 + k"
  "clock widget_env k = 1000 + k"
  by (simp_all add: outage_env_def outage_service_def outage_research_def widget_env_def
      widget_service_def widget_research_def createPicaService_def)

lemma unauthorized_run:
  "createOpenAIService unauthorized_env = Inr widget_service"
  "createPicaService unauthorized_env =
     Inr \<lparr>secret = ''sk'', serverUrl = Some ''https://api.picaos.com/v1'', port = None\<rparr>"
  "\<not> ar_success (fst (createGitHubIssue unauthorized_env p s))"
  by (simp_all add: unauthorized_env_def widget_env_def createPicaService_def
      createGitHubIssue_def try_createGitHubIssue_def getGitHubConnection_def new_Date_def)

section \<open>The claims\<close>

text \<open>
  Throughout, a session id is \<^emph>\<open>supplied\<close> when the handler's own test
  \<^verbatim>\<open>if (sessionId)\<close> passes: the body carries a \<^verbatim>\<open>sessionId\<close> that is not the empty
  string. The events published during a run are \<open>run_events\<close>: what the run appends to the
  history of \<^verbatim>\<open>sendSSEUpdate\<close> invocations (lemma \<open>run_events_append\<close>), whether or not a
  channel is registered for them.
\<close>

text \<open>
  \<^bold>\<open>C1.\<close> For a request with a non-empty query and a supplied session id, when the research
  collaborator's factory and both its operations succeed (the research result is not
  \<^verbatim>\<open>failed\<close>) and the action service can be created, the events published during the run
  are exactly, in order, \<^verbatim>\<open>status/analyzing\<close>, \<^verbatim>\<open>status/researching\<close>,
  \<^verbatim>\<open>status/planning\<close>, \<^verbatim>\<open>status/executing\<close>, \<^verbatim>\<open>complete\<close>, all addressed to that session.
  This holds whether the issue-creation action itself reports success or failure.
\<close>

theorem success_path_events:
  assumes "req_query req = Some q" and "q \<noteq> []"
    and "req_sessionId req = Some sid" and "sid \<noteq> []"
    and "createOpenAIService e = Inr svc" and "createPicaService e = Inr cfg"
    and "generateResearch svc \<lparr>rq_query = q, rq_userId = None, rq_sessionId = Some sid\<rparr> = Inr rr"
    and "rr_status rr \<noteq> failed"
    and "generateGitHubIssueContent svc (rr_findings rr) q = Inr ic"
  shows "map (\<lambda>(i, m). (i, msg_type m, msg_step m)) (run_events e req s) =
      [(sid, t_status, Some analyzing), (sid, t_status, Some researching),
       (sid, t_status, Some planning), (sid, t_status, Some executing),
       (sid, t_complete, Some complete)]"
  using assms(5-9)
  by (simp add: run_events_supplied [OF assms(1-4)] fst_research_step Let_def
      status_message_def complete_message_def)

theorem widgets_run_events_in_order:
  "req_query widget_request = Some ''Research X'' \<and> req_sessionId widget_request = Some ''s1''
   \<and> map (\<lambda>(i, m). (i, msg_type m, msg_step m)) (run_events widget_env widget_request idle_state) =
      [(''s1'', t_status, Some analyzing), (''s1'', t_status, Some researching),
       (''s1'', t_status, Some planning), (''s1'', t_status, Some executing),
       (''s1'', t_complete, Some complete)]"
  using success_path_events [OF widget_request_fields(1) _ widget_request_fields(2) _ widget_run(1,2,3,5,4),
      of idle_state]
  by (simp add: widget_request_fields)

text \<open>
  \<^bold>\<open>C2.\<close> For a request that reaches step 4 (the query is non-empty, both services can be
  created, research returns a result that is not \<^verbatim>\<open>failed\<close>, and the issue content is
  generated), with or without a session id: the response has status 200 and
  \<^verbatim>\<open>success: true\<close>, its \<^verbatim>\<open>actions\<close> list is the single result \<open>a\<close> that
  \<^verbatim>\<open>createGitHubIssue\<close> returned for the parameters of the call, and if that result has
  \<^verbatim>\<open>success = false\<close> then the summary reports one executed action, no successful action
  and \<^verbatim>\<open>githubIssueUrl = null\<close>.
\<close>

theorem failed_action_keeps_success:
  assumes "req_query req = Some q" and "q \<noteq> []"
    and "createOpenAIService e = Inr svc" and "createPicaService e = Inr cfg"
    and "generateResearch svc
           \<lparr>rq_query = q, rq_userId = None,
            rq_sessionId = Some (fst (session_or_generated e (req_sessionId req) s))\<rparr> = Inr rr"
    and "rr_status rr \<noteq> failed"
    and "generateGitHubIssueContent svc (rr_findings rr) q = Inr ic"
  shows "\<exists>b a st. fst (research_and_action e req s) = \<lparr>status_code = 200, json = Success_body b\<rparr>
    \<and> sb_success b \<and> sb_actions b = [a]
    \<and> a = fst (createGitHubIssue e (issue_params_of req ic) st)
    \<and> last (run_calls e req s) = Call_createGitHubIssue (issue_params_of req ic)
    \<and> (\<not> ar_success a \<longrightarrow>
          actionsExecuted (sb_summary b) = 1 \<and> successfulActions (sb_summary b) = 0
        \<and> githubIssueUrl (sb_summary b) = Null)"
  by (simp add: run_calls_reaches_step4 [OF assms] run_reaches_step4 [OF assms]
      fst_create_issue_step final_result_def action_of_def exI)

theorem unauthorized_run_reports_failed_action:
  "\<exists>b a. fst (research_and_action unauthorized_env widget_request idle_state) =
       \<lparr>status_code = 200, json = Success_body b\<rparr>
     \<and> sb_success b \<and> sb_actions b = [a] \<and> \<not> ar_success a
     \<and> successfulActions (sb_summary b) = 0 \<and> githubIssueUrl (sb_summary b) = Null"
proof -
  have q: "''Research X'' \<noteq> []" by simp
  obtain b a st where
    "fst (research_and_action unauthorized_env widget_request idle_state) =
       \<lparr>status_code = 200, json = Success_body b\<rparr>"
    and "sb_success b" and "sb_actions b = [a]"
    and a: "a = fst (createGitHubIssue unauthorized_env
               (issue_params_of widget_request \<lparr>ic_title = ''T'', ic_body = ''B''\<rparr>) st)"
    and "\<not> ar_success a \<longrightarrow>
          actionsExecuted (sb_summary b) = 1 \<and> successfulActions (sb_summary b) = 0
        \<and> githubIssueUrl (sb_summary b) = Null"
    using failed_action_keeps_success [OF widget_request_fields(1) q unauthorized_run(1,2) widget_run(3,5,4),
        of idle_state]
    by blast
  moreover have "\<not> ar_success a"
    unfolding a by (rule unauthorized_run(3))
  ultimately show ?thesis by blast
qed

text \<open>
  \<^bold>\<open>C3.\<close> For every run of the workflow (the query is non-empty) with a supplied session id,
  whatever the collaborators do: the run publishes at least one event; exactly one of
  its events is terminal (of type \<^verbatim>\<open>complete\<close> or \<^verbatim>\<open>error\<close>), so never both kinds; the
  terminal event is the last event of the run; and every event is addressed to the
  session.
\<close>

theorem one_terminal_event_last:
  assumes "req_query req = Some q" and "q \<noteq> []"
    and "req_sessionId req = Some sid" and "sid \<noteq> []"
  shows "run_events e req s \<noteq> []
    \<and> length (filter (\<lambda>x. msg_type (snd x) = t_complete \<or> msg_type (snd x) = t_error)
         (run_events e req s)) = 1
    \<and> (msg_type (snd (last (run_events e req s))) = t_complete
        \<or> msg_type (snd (last (run_events e req s))) = t_error)
    \<and> (\<forall>x \<in> set (run_events e req s). fst x = sid)"
  by (simp add: run_events_supplied [OF assms] Let_def
      status_message_def complete_message_def error_message_def split: sum.split)

theorem terminal_event_of_two_runs:
  "length (filter (\<lambda>x. msg_type (snd x) = t_complete \<or> msg_type (snd x) = t_error)
         (run_events outage_env widget_request idle_state)) = 1
   \<and> msg_type (snd (last (run_events outage_env widget_request idle_state))) = t_error
   \<and> length (filter (\<lambda>x. msg_type (snd x) = t_complete \<or> msg_type (snd x) = t_error)
         (run_events widget_env widget_request idle_state)) = 1
   \<and> msg_type (snd (last (run_events widget_env widget_request idle_state))) = t_complete"
proof -
  have q: "''Research X'' \<noteq> []" and sid: "''s1'' \<noteq> []" by simp_all
  have 1: "msg_type (snd (last (run_events outage_env widget_request idle_state))) = t_error"
    by (simp add: run_events_supplied [OF widget_request_fields(1) q widget_request_fields(2) sid]
        outage_run fst_research_step Let_def error_message_def)
  have 2: "msg_type (snd (last (run_events widget_env widget_request idle_state))) = t_complete"
    by (simp add: run_events_supplied [OF widget_request_fields(1) q widget_request_fields(2) sid]
        widget_run fst_research_step Let_def complete_message_def)
  show ?thesis
    using one_terminal_event_last [OF widget_request_fields(1) q widget_request_fields(2) sid, of outage_env idle_state]
      one_terminal_event_last [OF widget_request_fields(1) q widget_request_fields(2) sid, of widget_env idle_state]
      1 2
    by simp
qed

text \<open>
  \<^bold>\<open>C4.\<close> \<^verbatim>\<open>sendSSEUpdate\<close> returns the state and nothing else: the model gives it no way
  to raise, since a write to a response stream reports its failure through the stream and
  not to the caller, and it awaits nothing. For every session id and message: with no
  channel registered (in particular after the session's connection closed) the call
  changes nothing but the history of publications; with a channel whose write fails the
  same holds; and the workflow does not see the registry at all: two runs of the handler
  that start with the same clock give the same response and invoke the same collaborator
  operations, whatever channels are registered and whether their writes succeed.
\<close>

theorem publish_never_surfaces:
  "(sseClients s sid = None \<longrightarrow>
      sendSSEUpdate sid m s = s\<lparr>published := published s @ [(sid, m)]\<rparr>)
   \<and> sseClients (sse_close sid s) sid = None
   \<and> (\<forall>c. sseClients s sid = Some c \<and> \<not> alive c \<longrightarrow>
         sendSSEUpdate sid m s = s\<lparr>published := published s @ [(sid, m)]\<rparr>)
   \<and> (\<forall>s'. clock_reads s' = clock_reads s \<longrightarrow>
         fst (research_and_action e req s') = fst (research_and_action e req s)
       \<and> run_calls e req s' = run_calls e req s)"
proof (intro conjI allI impI)
  show "sendSSEUpdate sid m s = s\<lparr>published := published s @ [(sid, m)]\<rparr>"
    if "sseClients s sid = None"
    using that by (rule sendSSEUpdate_unregistered)
  show "sseClients (sse_close sid s) sid = None"
    by (simp add: sse_close_def)
  show "sendSSEUpdate sid m s = s\<lparr>published := published s @ [(sid, m)]\<rparr>"
    if "sseClients s sid = Some c \<and> \<not> alive c" for c
    using that by (simp add: sendSSEUpdate_failed_write)
  show "fst (research_and_action e req s') = fst (research_and_action e req s)"
    if "clock_reads s' = clock_reads s" for s'
    using response_independent_of_registry [OF that] by (rule conjunct1)
  show "run_calls e req s' = run_calls e req s"
    if "clock_reads s' = clock_reads s" for s'
    using response_independent_of_registry [OF that] by (rule conjunct2)
qed

theorem stale_channel_run_unaffected:
  "sseClients idle_state ''s1'' = None
   \<and> sendSSEUpdate ''s1'' (error_message ''upstream unavailable'' 1003) idle_state =
       idle_state\<lparr>published := [(''s1'', error_message ''upstream unavailable'' 1003)]\<rparr>
   \<and> sseClients stale_state ''s1'' = Some \<lparr>alive = False, frames = []\<rparr>
   \<and> sendSSEUpdate ''s1'' (error_message ''upstream unavailable'' 1003) stale_state =
       stale_state\<lparr>published := [(''s1'', error_message ''upstream unavailable'' 1003)]\<rparr>
   \<and> fst (research_and_action widget_env widget_request stale_state)
       = fst (research_and_action widget_env widget_request idle_state)
   \<and> run_calls widget_env widget_request stale_state
       = run_calls widget_env widget_request idle_state"
proof -
  let ?m = "error_message ''upstream unavailable'' 1003"
  have p: "published idle_state = []" "published stale_state = []"
    by (simp_all add: idle_state_def stale_state_def)
  have c: "clock_reads stale_state = clock_reads idle_state"
    by (simp add: idle_state_fields)
  have 1: "sendSSEUpdate ''s1'' ?m idle_state =
      idle_state\<lparr>published := published idle_state @ [(''s1'', ?m)]\<rparr>"
    using publish_never_surfaces [of idle_state "''s1''" ?m widget_env widget_request]
    by (simp add: idle_state_fields)
  have 2: "sendSSEUpdate ''s1'' ?m stale_state =
      stale_state\<lparr>published := published stale_state @ [(''s1'', ?m)]\<rparr>"
    using publish_never_surfaces [of stale_state "''s1''" ?m widget_env widget_request]
    by (simp add: idle_state_fields)
  have 3: "fst (research_and_action widget_env widget_request stale_state)
       = fst (research_and_action widget_env widget_request idle_state)
     \<and> run_calls widget_env widget_request stale_state
       = run_calls widget_env widget_request idle_state"
    using publish_never_surfaces [of idle_state "''s1''" ?m widget_env widget_request] c by blast
  show ?thesis
    using 1 2 3 by (simp add: p idle_state_fields)
qed

text \<open>
  \<^bold>\<open>C5.\<close> A request whose query is the empty string is answered with status 400 and the
  body \<^verbatim>\<open>{error: "Query is required", ...}\<close>, and the server state is left as it was: no
  collaborator operation is invoked, no event is published, and the clock is not read.
\<close>

theorem empty_query_rejected:
  assumes "req_query req = Some []"
  shows "fst (research_and_action e req s) =
      \<lparr>status_code = 400,
       json = Rejected_body
         \<lparr>vb_error = ''Query is required'', vb_details = ''Please provide a research query''\<rparr>\<rparr>
    \<and> snd (research_and_action e req s) = s
    \<and> run_calls e req s = [] \<and> run_events e req s = []"
  using assms
  by (simp add: run_rejected truthy_def run_calls_def run_events_def query_required_def)

theorem blank_widget_request_refused:
  "req_query (widget_request\<lparr>req_query := Some []\<rparr>) = Some []
   \<and> status_code (fst (research_and_action widget_env (widget_request\<lparr>req_query := Some []\<rparr>)
        idle_state)) = 400
   \<and> snd (research_and_action widget_env (widget_request\<lparr>req_query := Some []\<rparr>) idle_state)
       = idle_state
   \<and> run_calls widget_env (widget_request\<lparr>req_query := Some []\<rparr>) idle_state = []
   \<and> run_events widget_env (widget_request\<lparr>req_query := Some []\<rparr>) idle_state = []"
  using empty_query_rejected [of "widget_request\<lparr>req_query := Some []\<rparr>" widget_env idle_state]
  by simp

text \<open>
  \<^bold>\<open>C6.\<close> As stated for every run, the claim fails: without a session id nothing is
  streamed, although the response is the failure response. The run below has no session
  id; research returns the \<^verbatim>\<open>failed\<close> result \<open>upstream unavailable\<close>; the response is the
  500 response with those details, and no event is published.
\<close>

theorem outage_without_session_is_silent:
  "createOpenAIService outage_env = Inr outage_service
   \<and> generateResearch outage_service
       \<lparr>rq_query = ''Research X'', rq_userId = None, rq_sessionId = Some ''session_1000''\<rparr>
      = Inr outage_research
   \<and> rr_status outage_research = failed
   \<and> run_calls outage_env anonymous_request idle_state =
      [Call_generateResearch
         \<lparr>rq_query = ''Research X'', rq_userId = None, rq_sessionId = Some ''session_1000''\<rparr>]
   \<and> fst (research_and_action outage_env anonymous_request idle_state) =
      \<lparr>status_code = 500,
       json = Failure_body
         \<lparr>fb_success = False, fb_error = ''Research and action workflow failed'',
          fb_details = ''upstream unavailable'', fb_timestamp = 1001\<rparr>\<rparr>
   \<and> run_events outage_env anonymous_request idle_state = []"
proof -
  have q: "''Research X'' \<noteq> []" by simp
  have f: "\<not> truthy (req_sessionId anonymous_request)"
    by (simp add: widget_request_fields truthy_def)
  have d: "dec 1000 = ''1000''"
    by (simp add: dec.simps)
  have ev: "run_events outage_env anonymous_request idle_state = []"
    using silent_without_session [OF f, of outage_env idle_state] by (simp add: run_events_def)
  have "research_and_action outage_env anonymous_request idle_state =
      catch_block outage_env anonymous_request ''upstream unavailable''
        (snd (research_step outage_env anonymous_request outage_service
          \<lparr>rq_query = ''Research X'', rq_userId = None, rq_sessionId = Some ''session_1000''\<rparr>
          (idle_state\<lparr>clock_reads := Suc 0\<rparr>)))"
    by (simp add: run_unfold [OF widget_request_fields(4) q] Let_def session_generated [OF f]
        outage_run fst_research_step idle_state_fields d)
  then show ?thesis
    using f
    by (simp add: ev outage_run run_calls_def fst_catch_block calls_steps
        clock_reads_research_step idle_state_fields)
qed

text \<open>
  \<^bold>\<open>C6, amended.\<close> For every run with a non-empty query in which research returns a result
  with status \<^verbatim>\<open>failed\<close>: the response has status 500, \<^verbatim>\<open>success: false\<close> and \<^verbatim>\<open>details\<close>
  equal to the findings text, and the only collaborator operation invoked is
  \<^verbatim>\<open>generateResearch\<close>. If a session id was supplied, the events published are exactly
  \<^verbatim>\<open>status/analyzing\<close>, \<^verbatim>\<open>status/researching\<close> and one \<^verbatim>\<open>error\<close> event whose message is the
  findings text. If none was supplied, no event is published.
\<close>

theorem failed_research_streams_error:
  assumes "req_query req = Some q" and "q \<noteq> []"
    and "createOpenAIService e = Inr svc" and "createPicaService e = Inr cfg"
    and "generateResearch svc
           \<lparr>rq_query = q, rq_userId = None,
            rq_sessionId = Some (fst (session_or_generated e (req_sessionId req) s))\<rparr> = Inr rr"
    and "rr_status rr = failed"
  shows "fst (research_and_action e req s) =
      \<lparr>status_code = 500,
       json = Failure_body
         \<lparr>fb_success = False, fb_error = ''Research and action workflow failed'',
          fb_details = rr_findings rr,
          fb_timestamp =
            clock e (clock_reads s + (if truthy (req_sessionId req) then 2 else 1))\<rparr>\<rparr>
    \<and> run_calls e req s =
      [Call_generateResearch
         \<lparr>rq_query = q, rq_userId = None,
          rq_sessionId = Some (fst (session_or_generated e (req_sessionId req) s))\<rparr>]
    \<and> (\<forall>sid. req_sessionId req = Some sid \<and> sid \<noteq> [] \<longrightarrow>
          run_events e req s =
            [(sid, status_message analyzing ''Analyzing your query...'' (clock e (clock_reads s))),
             (sid, status_message researching ''Conducting deep research with OpenAI...''
                     (clock e (clock_reads s + 1))),
             (sid, error_message (rr_findings rr) (clock e (clock_reads s + 3)))])
    \<and> (\<not> truthy (req_sessionId req) \<longrightarrow> run_events e req s = [])"
proof -
  let ?rq = "\<lparr>rq_query = q, rq_userId = None,
          rq_sessionId = Some (fst (session_or_generated e (req_sessionId req) s))\<rparr>"
  let ?s0 = "snd (session_or_generated e (req_sessionId req) s)"
  have run: "research_and_action e req s =
      catch_block e req (rr_findings rr) (snd (research_step e req svc ?rq ?s0))"
    using assms(3-6) by (simp add: run_unfold [OF assms(1,2)] Let_def fst_research_step)
  have c0: "clock_reads ?s0 =
      (if truthy (req_sessionId req) then clock_reads s else Suc (clock_reads s))"
    by (cases "req_sessionId req")
      (simp_all add: session_or_generated_def new_Date_def truthy_def)
  have response: "fst (research_and_action e req s) =
      \<lparr>status_code = 500,
       json = Failure_body
         \<lparr>fb_success = False, fb_error = ''Research and action workflow failed'',
          fb_details = rr_findings rr,
          fb_timestamp =
            clock e (clock_reads s + (if truthy (req_sessionId req) then 2 else 1))\<rparr>\<rparr>"
    by (simp add: run fst_catch_block clock_reads_research_step c0)
  have invoked: "run_calls e req s = [Call_generateResearch ?rq]"
    by (simp add: run_calls_def run calls_steps session_or_generated_frame)
  have streamed: "run_events e req s =
      [(sid, status_message analyzing ''Analyzing your query...'' (clock e (clock_reads s))),
       (sid, status_message researching ''Conducting deep research with OpenAI...''
               (clock e (clock_reads s + 1))),
       (sid, error_message (rr_findings rr) (clock e (clock_reads s + 3)))]"
    if "req_sessionId req = Some sid" "sid \<noteq> []" for sid
    using that
    by (simp add: run_events_def run published_steps clock_reads_research_step
        session_supplied addressed_Some truthy_def eval_nat_numeral)
  have silent: "run_events e req s = []" if "\<not> truthy (req_sessionId req)"
    using silent_without_session [OF that, of e s] by (simp add: run_events_def)
  show ?thesis
    using response invoked streamed silent by blast
qed

theorem outage_run_streams_error:
  "rr_status outage_research = failed
   \<and> fst (research_and_action outage_env widget_request idle_state) =
      \<lparr>status_code = 500,
       json = Failure_body
         \<lparr>fb_success = False, fb_error = ''Research and action workflow failed'',
          fb_details = ''upstream unavailable'', fb_timestamp = 1002\<rparr>\<rparr>
   \<and> run_events outage_env widget_request idle_state =
      [(''s1'', status_message analyzing ''Analyzing your query...'' 1000),
       (''s1'', status_message researching ''Conducting deep research with OpenAI...'' 1001),
       (''s1'', error_message ''upstream unavailable'' 1003)]"
proof -
  have q: "''Research X'' \<noteq> []" by simp
  have t: "truthy (req_sessionId widget_request)"
    by (simp add: widget_request_fields truthy_def)
  show ?thesis
    using failed_research_streams_error
      [OF widget_request_fields(1) q outage_run(1,2,3,4), of idle_state] t
    by (simp add: outage_run idle_state_fields widget_request_fields)
qed

text \<open>
  \<^bold>\<open>C7.\<close> As stated for every descriptor containing a \<open>/\<close>, the claim fails. For
  \<open>a/b/c\<close> the pieces after the second are dropped: the call receives owner \<open>a\<close> and
  repo \<open>b\<close>, and the result's repository is \<open>a/b\<close>, not the descriptor. For \<open>acme/\<close>
  the second piece is empty, so the placeholder owner is used with the whole string as
  the repo name, although the descriptor contains a \<open>/\<close>.
\<close>

theorem descriptor_with_extra_slash:
  "fst (research_and_action widget_env (widget_request\<lparr>req_githubRepo := Some ''a/b/c''\<rparr>) idle_state) =
    \<lparr>status_code = 200,
     json = Success_body
       \<lparr>sb_success = True, sb_sessionId = ''s1'', sb_research = widget_research,
        sb_actions =
          [\<lparr>ar_type = github_issue, ar_platform = ''github'', ar_success = True,
            ar_result = Some \<lparr>issueNumber = Some 7, issueUrl = Some ''https://github.com/i/7'',
              title = Some ''T'', repository = Some ''a/b''\<rparr>,
            ar_error = None, ar_timestamp = 1004\<rparr>],
        sb_summary =
          \<lparr>sm_query = ''Research X'', researchCompleted = True, actionsExecuted = 1,
           successfulActions = 1, githubIssueUrl = Val ''https://github.com/i/7''\<rparr>\<rparr>\<rparr>
   \<and> CHR ''/'' \<in> set ''acme/''
   \<and> last (run_calls widget_env (widget_request\<lparr>req_githubRepo := Some ''acme/''\<rparr>) idle_state) =
       Call_createGitHubIssue
         \<lparr>ip_title = ''T'', ip_body = ''B'', ip_owner = ''your-username'', ip_repo = ''acme/''\<rparr>"
proof -
  let ?r = "widget_request\<lparr>req_githubRepo := Some ''a/b/c''\<rparr>"
  let ?r' = "widget_request\<lparr>req_githubRepo := Some ''acme/''\<rparr>"
  let ?ic = "\<lparr>ic_title = ''T'', ic_body = ''B''\<rparr>"
  have r: "req_query ?r = Some ''Research X''" "req_sessionId ?r = Some ''s1''"
    and r': "req_query ?r' = Some ''Research X''" "req_sessionId ?r' = Some ''s1''"
    by (simp_all add: widget_request_def)
  have run: "research_and_action widget_env ?r idle_state =
      create_issue_step widget_env ?r ''Research X'' ''s1'' widget_research ?ic
        (snd (plan_step widget_env ?r widget_service widget_research ''Research X''
          (snd (research_step widget_env ?r widget_service
            \<lparr>rq_query = ''Research X'', rq_userId = None, rq_sessionId = Some ''s1''\<rparr>
            idle_state))))"
    using run_reaches_step4 [OF r(1) _ widget_run(1,2), of idle_state widget_research ?ic]
    by (simp add: widget_run r session_supplied)
  have p: "issue_params_of ?r ?ic =
      \<lparr>ip_title = ''T'', ip_body = ''B'', ip_owner = ''a'', ip_repo = ''b''\<rparr>"
    by (simp add: issue_params_of_def parse_githubRepo_def widget_request_def)
  have 1: "fst (research_and_action widget_env ?r idle_state) =
    \<lparr>status_code = 200,
     json = Success_body
       \<lparr>sb_success = True, sb_sessionId = ''s1'', sb_research = widget_research,
        sb_actions =
          [\<lparr>ar_type = github_issue, ar_platform = ''github'', ar_success = True,
            ar_result = Some \<lparr>issueNumber = Some 7, issueUrl = Some ''https://github.com/i/7'',
              title = Some ''T'', repository = Some ''a/b''\<rparr>,
            ar_error = None, ar_timestamp = 1004\<rparr>],
        sb_summary =
          \<lparr>sm_query = ''Research X'', researchCompleted = True, actionsExecuted = 1,
           successfulActions = 1, githubIssueUrl = Val ''https://github.com/i/7''\<rparr>\<rparr>\<rparr>"
    by (simp add: run fst_create_issue_step action_of_def p clock_reads_plan_step
        clock_reads_research_step r truthy_def widget_action final_result_def
        idle_state_fields widget_run)
  have 2: "last (run_calls widget_env ?r' idle_state) =
       Call_createGitHubIssue
         \<lparr>ip_title = ''T'', ip_body = ''B'', ip_owner = ''your-username'', ip_repo = ''acme/''\<rparr>"
    using run_calls_reaches_step4 [OF r'(1) _ widget_run(1,2), of idle_state widget_research ?ic]
    by (simp add: widget_run r' session_supplied issue_params_of_def parse_githubRepo_def
        widget_request_def)
  show ?thesis using 1 2 by simp
qed

text \<open>
  \<^bold>\<open>C7, amended.\<close> Let \<open>g\<close> be the repository descriptor of the request, \<open>test-repo\<close> when
  the body has none. On a run that reaches step 4, \<^verbatim>\<open>createGitHubIssue\<close> is called with the
  owner and repo that \<open>parse_githubRepo g\<close> gives, and when it succeeds the result's
  repository is \<open>owner/repo\<close>. If \<open>g\<close> is \<open>own/rep\<close> with exactly one \<open>/\<close> and a
  non-empty \<open>rep\<close>, these are \<open>own\<close> and \<open>rep\<close>, and the result's repository equals
  \<open>g\<close>. If \<open>g\<close> contains no \<open>/\<close>, the owner is \<open>your-username\<close> and the repo is \<open>g\<close>;
  so an absent descriptor gives \<open>your-username\<close> and \<open>test-repo\<close>. For every other
  descriptor: the owner is the text before the first \<open>/\<close> and the repo the text between
  the first \<open>/\<close> and the next (or the end), unless that text is empty, in which case the
  owner is \<open>your-username\<close> and the repo is the whole descriptor.
\<close>

theorem repository_descriptor_parse:
  assumes "req_query req = Some q" and "q \<noteq> []"
    and "createOpenAIService e = Inr svc" and "createPicaService e = Inr cfg"
    and "generateResearch svc
           \<lparr>rq_query = q, rq_userId = None,
            rq_sessionId = Some (fst (session_or_generated e (req_sessionId req) s))\<rparr> = Inr rr"
    and "rr_status rr \<noteq> failed"
    and "generateGitHubIssueContent svc (rr_findings rr) q = Inr ic"
    and "g = (case req_githubRepo req of None \<Rightarrow> ''test-repo'' | Some d \<Rightarrow> d)"
  shows "\<exists>b a st. json (fst (research_and_action e req s)) = Success_body b \<and> sb_actions b = [a]
    \<and> a = fst (createGitHubIssue e
          \<lparr>ip_title = ic_title ic, ip_body = ic_body ic,
           ip_owner = fst (parse_githubRepo g), ip_repo = snd (parse_githubRepo g)\<rparr> st)
    \<and> last (run_calls e req s) =
        Call_createGitHubIssue
          \<lparr>ip_title = ic_title ic, ip_body = ic_body ic,
           ip_owner = fst (parse_githubRepo g), ip_repo = snd (parse_githubRepo g)\<rparr>
    \<and> (ar_success a \<longrightarrow>
         (\<exists>r. ar_result a = Some r
            \<and> repository r = Some (fst (parse_githubRepo g) @ ''/'' @ snd (parse_githubRepo g))))
    \<and> (\<forall>own rep. g = own @ ''/'' @ rep \<and> CHR ''/'' \<notin> set own \<and> CHR ''/'' \<notin> set rep \<and> rep \<noteq> []
          \<longrightarrow> parse_githubRepo g = (own, rep)
            \<and> (ar_success a \<longrightarrow> (\<exists>r. ar_result a = Some r \<and> repository r = Some g)))
    \<and> (CHR ''/'' \<notin> set g \<longrightarrow> parse_githubRepo g = (''your-username'', g))
    \<and> (req_githubRepo req = None \<longrightarrow> parse_githubRepo g = (''your-username'', ''test-repo''))
    \<and> (\<forall>own rest. g = own @ CHR ''/'' # rest \<and> CHR ''/'' \<notin> set own \<longrightarrow>
          parse_githubRepo g =
            (if takeWhile (\<lambda>x. x \<noteq> CHR ''/'') rest = [] then (''your-username'', g)
             else (own, takeWhile (\<lambda>x. x \<noteq> CHR ''/'') rest)))"
proof -
  let ?p = "issue_params_of req ic"
  let ?st = "snd (plan_step e req svc rr q
        (snd (research_step e req svc
          \<lparr>rq_query = q, rq_userId = None,
           rq_sessionId = Some (fst (session_or_generated e (req_sessionId req) s))\<rparr>
          (snd (session_or_generated e (req_sessionId req) s)))))"
  define a where "a = action_of e req ic ?st"
  have p: "?p = \<lparr>ip_title = ic_title ic, ip_body = ic_body ic,
           ip_owner = fst (parse_githubRepo g), ip_repo = snd (parse_githubRepo g)\<rparr>"
    by (simp add: issue_params_of_def assms(8) split_beta Let_def)
  have res: "fst (research_and_action e req s) =
      final_result q (fst (session_or_generated e (req_sessionId req) s)) rr [a] a"
    by (simp add: run_reaches_step4 [OF assms(1-7)] fst_create_issue_step a_def)
  have a: "a = fst (createGitHubIssue e ?p
      (?st\<lparr>clock_reads :=
         (if truthy (req_sessionId req) then Suc (clock_reads ?st) else clock_reads ?st)\<rparr>))"
    by (simp add: a_def action_of_def)
  have repo: "\<exists>r. ar_result a = Some r
      \<and> repository r = Some (fst (parse_githubRepo g) @ ''/'' @ snd (parse_githubRepo g))"
    if "ar_success a"
    using that createGitHubIssue_repository [of e ?p] unfolding a p by fastforce
  have single: "parse_githubRepo g = (own, rep)
      \<and> (ar_success a \<longrightarrow> (\<exists>r. ar_result a = Some r \<and> repository r = Some g))"
    if "g = own @ ''/'' @ rep" "CHR ''/'' \<notin> set own" "CHR ''/'' \<notin> set rep" "rep \<noteq> []"
    for own rep
  proof -
    have "parse_githubRepo g = (own, rep)"
      using that parse_githubRepo_owner_repo [of own rep] by simp
    then show ?thesis using repo that(1) by auto
  qed
  have none: "parse_githubRepo g = (''your-username'', ''test-repo'')" if "req_githubRepo req = None"
    using that assms(8) by (simp add: parse_githubRepo_no_slash)
  have calls: "last (run_calls e req s) = Call_createGitHubIssue ?p"
    by (simp add: run_calls_reaches_step4 [OF assms(1-7)])
  have ex: "\<exists>st. a = fst (createGitHubIssue e
          \<lparr>ip_title = ic_title ic, ip_body = ic_body ic,
           ip_owner = fst (parse_githubRepo g), ip_repo = snd (parse_githubRepo g)\<rparr> st)"
    using a unfolding p by blast
  have general: "parse_githubRepo g =
      (if takeWhile (\<lambda>x. x \<noteq> CHR ''/'') rest = [] then (''your-username'', g)
       else (own, takeWhile (\<lambda>x. x \<noteq> CHR ''/'') rest))"
    if "g = own @ CHR ''/'' # rest" "CHR ''/'' \<notin> set own" for own rest
    using that parse_githubRepo_slash [of own rest] by simp
  have shape: "\<forall>own rest. g = own @ CHR ''/'' # rest \<and> CHR ''/'' \<notin> set own \<longrightarrow>
          parse_githubRepo g =
            (if takeWhile (\<lambda>x. x \<noteq> CHR ''/'') rest = [] then (''your-username'', g)
             else (own, takeWhile (\<lambda>x. x \<noteq> CHR ''/'') rest))"
    using general by blast
  have main: "\<exists>b a st. json (fst (research_and_action e req s)) = Success_body b \<and> sb_actions b = [a]
    \<and> a = fst (createGitHubIssue e
          \<lparr>ip_title = ic_title ic, ip_body = ic_body ic,
           ip_owner = fst (parse_githubRepo g), ip_repo = snd (parse_githubRepo g)\<rparr> st)
    \<and> last (run_calls e req s) =
        Call_createGitHubIssue
          \<lparr>ip_title = ic_title ic, ip_body = ic_body ic,
           ip_owner = fst (parse_githubRepo g), ip_repo = snd (parse_githubRepo g)\<rparr>
    \<and> (ar_success a \<longrightarrow>
         (\<exists>r. ar_result a = Some r
            \<and> repository r = Some (fst (parse_githubRepo g) @ ''/'' @ snd (parse_githubRepo g))))
    \<and> (\<forall>own rep. g = own @ ''/'' @ rep \<and> CHR ''/'' \<notin> set own \<and> CHR ''/'' \<notin> set rep \<and> rep \<noteq> []
          \<longrightarrow> parse_githubRepo g = (own, rep)
            \<and> (ar_success a \<longrightarrow> (\<exists>r. ar_result a = Some r \<and> repository r = Some g)))
    \<and> (CHR ''/'' \<notin> set g \<longrightarrow> parse_githubRepo g = (''your-username'', g))
    \<and> (req_githubRepo req = None \<longrightarrow> parse_githubRepo g = (''your-username'', ''test-repo''))"
    using repo single none calls ex
    by (simp add: res final_result_def p parse_githubRepo_no_slash)
  from main shape show ?thesis
    by (elim exE conjE, intro exI conjI) assumption+
qed

theorem acme_widgets_descriptor:
  "\<exists>b a r. json (fst (research_and_action widget_env widget_request idle_state)) = Success_body b
     \<and> sb_actions b = [a] \<and> ar_success a \<and> ar_result a = Some r
     \<and> repository r = Some ''acme/widgets''
     \<and> last (run_calls widget_env widget_request idle_state) =
         Call_createGitHubIssue
           \<lparr>ip_title = ''T'', ip_body = ''B'', ip_owner = ''acme'', ip_repo = ''widgets''\<rparr>
     \<and> parse_githubRepo ''test-repo'' = (''your-username'', ''test-repo'')"
proof -
  have q: "''Research X'' \<noteq> []" by simp
  have g: "''acme/widgets'' = (case req_githubRepo widget_request of
      None \<Rightarrow> ''test-repo'' | Some d \<Rightarrow> d)"
    by (simp add: widget_request_fields)
  obtain b a st where b: "json (fst (research_and_action widget_env widget_request idle_state))
      = Success_body b" "sb_actions b = [a]"
    and a: "a = fst (createGitHubIssue widget_env
          \<lparr>ip_title = ic_title \<lparr>ic_title = ''T'', ic_body = ''B''\<rparr>,
           ip_body = ic_body \<lparr>ic_title = ''T'', ic_body = ''B''\<rparr>,
           ip_owner = fst (parse_githubRepo ''acme/widgets''),
           ip_repo = snd (parse_githubRepo ''acme/widgets'')\<rparr> st)"
    and c: "last (run_calls widget_env widget_request idle_state) =
        Call_createGitHubIssue
          \<lparr>ip_title = ic_title \<lparr>ic_title = ''T'', ic_body = ''B''\<rparr>,
           ip_body = ic_body \<lparr>ic_title = ''T'', ic_body = ''B''\<rparr>,
           ip_owner = fst (parse_githubRepo ''acme/widgets''),
           ip_repo = snd (parse_githubRepo ''acme/widgets'')\<rparr>"
    and s: "\<forall>own rep. ''acme/widgets'' = own @ ''/'' @ rep \<and> CHR ''/'' \<notin> set own
          \<and> CHR ''/'' \<notin> set rep \<and> rep \<noteq> []
          \<longrightarrow> parse_githubRepo ''acme/widgets'' = (own, rep)
            \<and> (ar_success a \<longrightarrow>
                 (\<exists>r. ar_result a = Some r \<and> repository r = Some ''acme/widgets''))"
    using repository_descriptor_parse [OF widget_request_fields(1) q widget_run(1,2,3,5,4) g, of idle_state]
    by blast
  have ok: "ar_success a"
    unfolding a by (simp add: widget_action)
  have "parse_githubRepo ''acme/widgets'' = (''acme'', ''widgets'')
      \<and> (ar_success a \<longrightarrow> (\<exists>r. ar_result a = Some r \<and> repository r = Some ''acme/widgets''))"
    using s [rule_format, of "''acme''" "''widgets''"] by simp
  then show ?thesis
    using b c ok by (auto simp: parse_githubRepo_no_slash)
qed

text \<open>
  \<^bold>\<open>C8.\<close> On a successful run with a supplied session id, the last event published is the
  \<^verbatim>\<open>complete\<close> event, and its \<^verbatim>\<open>result\<close> payload agrees with the response body: the same
  research result and the same list of action results, which is the single result \<open>a\<close>
  returned by \<^verbatim>\<open>createGitHubIssue\<close>. The response adds the summary: \<^verbatim>\<open>actionsExecuted\<close>
  is the length of the list, \<^verbatim>\<open>successfulActions\<close> the number of its successful results,
  and \<^verbatim>\<open>githubIssueUrl\<close> is the issue URL of \<open>a\<close>'s result when \<open>a\<close> succeeded
  (\<^verbatim>\<open>undefined\<close> if the platform's answer had none) and \<^verbatim>\<open>null\<close> otherwise.
\<close>

theorem complete_event_mirrors_response:
  assumes "req_query req = Some q" and "q \<noteq> []"
    and "req_sessionId req = Some sid" and "sid \<noteq> []"
    and "createOpenAIService e = Inr svc" and "createPicaService e = Inr cfg"
    and "generateResearch svc \<lparr>rq_query = q, rq_userId = None, rq_sessionId = Some sid\<rparr> = Inr rr"
    and "rr_status rr \<noteq> failed"
    and "generateGitHubIssueContent svc (rr_findings rr) q = Inr ic"
  shows "\<exists>b w a st. fst (research_and_action e req s) = \<lparr>status_code = 200, json = Success_body b\<rparr>
    \<and> msg_type (snd (last (run_events e req s))) = t_complete
    \<and> msg_result (snd (last (run_events e req s))) = Some w
    \<and> wr_research w = sb_research b \<and> wr_actions w = sb_actions b
    \<and> sb_research b = rr \<and> sb_actions b = [a]
    \<and> a = fst (createGitHubIssue e (issue_params_of req ic) st)
    \<and> actionsExecuted (sb_summary b) = length (sb_actions b)
    \<and> successfulActions (sb_summary b) = length (filter ar_success (sb_actions b))
    \<and> (ar_success a \<longrightarrow>
         (\<exists>r. ar_result a = Some r
            \<and> githubIssueUrl (sb_summary b) =
                (case issueUrl r of None \<Rightarrow> Undefined | Some u \<Rightarrow> Val u)))
    \<and> (\<not> ar_success a \<longrightarrow> githubIssueUrl (sb_summary b) = Null)"
proof -
  let ?st = "snd (plan_step e req svc rr q
          (snd (research_step e req svc
            \<lparr>rq_query = q, rq_userId = None, rq_sessionId = Some sid\<rparr> s)))"
  have run: "research_and_action e req s = create_issue_step e req q sid rr ic ?st"
    using assms run_reaches_step4 [of req q e svc cfg s rr ic] by (simp add: session_supplied)
  define a where "a = action_of e req ic ?st"
  have ex: "\<exists>st. a = fst (createGitHubIssue e (issue_params_of req ic) st)"
    unfolding a_def action_of_def by blast
  have evs: "last (run_events e req s) = (sid, complete_message rr [a] a (clock e (clock_reads s + 5)))"
    using assms(5-9)
    by (simp add: run_events_supplied [OF assms(1-4)] fst_research_step Let_def a_def)
  have res: "fst (research_and_action e req s) = final_result q sid rr [a] a"
    by (simp add: run fst_create_issue_step a_def)
  have gated: "ar_success a \<Longrightarrow> \<exists>r. ar_result a = Some r"
    unfolding a_def action_of_def using createGitHubIssue_repository by blast
  show ?thesis
    using gated ex
    by (auto simp add: res evs final_result_def complete_message_def)
qed

theorem widgets_run_payloads_agree:
  "\<exists>b w. fst (research_and_action widget_env widget_request idle_state) =
       \<lparr>status_code = 200, json = Success_body b\<rparr>
     \<and> msg_type (snd (last (run_events widget_env widget_request idle_state))) = t_complete
     \<and> msg_result (snd (last (run_events widget_env widget_request idle_state))) = Some w
     \<and> wr_research w = sb_research b \<and> wr_actions w = sb_actions b
     \<and> sb_research b = widget_research
     \<and> actionsExecuted (sb_summary b) = 1 \<and> successfulActions (sb_summary b) = 1
     \<and> githubIssueUrl (sb_summary b) = Val ''https://github.com/i/7''"
proof -
  have q: "''Research X'' \<noteq> []" and sid: "''s1'' \<noteq> []" by simp_all
  obtain b w a st where
    1: "fst (research_and_action widget_env widget_request idle_state) =
         \<lparr>status_code = 200, json = Success_body b\<rparr>"
       "msg_type (snd (last (run_events widget_env widget_request idle_state))) = t_complete"
       "msg_result (snd (last (run_events widget_env widget_request idle_state))) = Some w"
       "wr_research w = sb_research b" "wr_actions w = sb_actions b"
       "sb_research b = widget_research" "sb_actions b = [a]"
    and a: "a = fst (createGitHubIssue widget_env
              (issue_params_of widget_request \<lparr>ic_title = ''T'', ic_body = ''B''\<rparr>) st)"
    and 2: "actionsExecuted (sb_summary b) = length (sb_actions b)"
       "successfulActions (sb_summary b) = length (filter ar_success (sb_actions b))"
       "ar_success a \<longrightarrow>
         (\<exists>r. ar_result a = Some r
            \<and> githubIssueUrl (sb_summary b) =
                (case issueUrl r of None \<Rightarrow> Undefined | Some u \<Rightarrow> Val u))"
    using complete_event_mirrors_response [OF widget_request_fields(1) q widget_request_fields(2) sid widget_run(1,2,3,5,4),
        of idle_state]
    by blast
  have "ar_success a" "\<exists>r. ar_result a = Some r \<and> issueUrl r = Some ''https://github.com/i/7''"
    unfolding a by (simp_all add: widget_action)
  then show ?thesis
    using 1 2 by auto
qed

text \<open>
  \<^bold>\<open>C9.\<close> \<^verbatim>\<open>createGitHubIssue\<close> always returns a result, for all parameters and whatever
  the platform answers: its only effect on the state is one reading of the clock, and
  whatever its \<^verbatim>\<open>try\<close> block throws is turned into a failed result by the \<^verbatim>\<open>catch\<close>
  block. In the result, \<^verbatim>\<open>success = true\<close> comes with a \<^verbatim>\<open>result\<close> and no \<^verbatim>\<open>error\<close>, and
  \<^verbatim>\<open>success = false\<close> comes with no \<^verbatim>\<open>result\<close> and an \<^verbatim>\<open>error\<close> text, which is not empty.
  The assumption is on the transport: a rejection that has neither a response nor a
  request carries a non-empty message, as every Error object of the runtime and of axios
  does; the \<^verbatim>\<open>catch\<close> block passes that message on unchanged.
\<close>

theorem createGitHubIssue_result_gated:
  assumes "\<And>u d k. issues_post e u d k \<noteq> Rejected (Other_error [])"
  shows "snd (createGitHubIssue e params s) = s\<lparr>clock_reads := Suc (clock_reads s)\<rparr>
    \<and> (\<forall>err s1. try_createGitHubIssue e params s = (Inl err, s1) \<longrightarrow>
          fst (createGitHubIssue e params s) =
            failedResult (errorMessage params err) (clock e (clock_reads s1)))
    \<and> (ar_success (fst (createGitHubIssue e params s)) \<longrightarrow>
            ar_result (fst (createGitHubIssue e params s)) \<noteq> None
          \<and> ar_error (fst (createGitHubIssue e params s)) = None)
    \<and> (\<not> ar_success (fst (createGitHubIssue e params s)) \<longrightarrow>
            ar_result (fst (createGitHubIssue e params s)) = None
          \<and> (\<exists>m. ar_error (fst (createGitHubIssue e params s)) = Some m \<and> m \<noteq> []))"
proof -
  have "errorMessage params err \<noteq> []"
    if "issues_post e u d k = Rejected err" for u d k err
    using that assms [of u d k] errorMessage_nonempty [of err params] by auto
  then have gated:
    "(ar_success (fst (createGitHubIssue e params s)) \<longrightarrow>
            ar_result (fst (createGitHubIssue e params s)) \<noteq> None
          \<and> ar_error (fst (createGitHubIssue e params s)) = None)
    \<and> (\<not> ar_success (fst (createGitHubIssue e params s)) \<longrightarrow>
            ar_result (fst (createGitHubIssue e params s)) = None
          \<and> (\<exists>m. ar_error (fst (createGitHubIssue e params s)) = Some m \<and> m \<noteq> []))"
    by (simp add: createGitHubIssue_def try_createGitHubIssue_def new_Date_def failedResult_def
        errorMessage_def split: option.split axios_outcome.split)
  have caught: "fst (createGitHubIssue e params s) =
      failedResult (errorMessage params err) (clock e (clock_reads s1))"
    if "try_createGitHubIssue e params s = (Inl err, s1)" for err s1
    using that by (simp add: createGitHubIssue_def new_Date_def)
  show ?thesis
    using gated caught by (simp add: snd_createGitHubIssue)
qed

theorem issue_results_of_two_envs:
  "ar_success (fst (createGitHubIssue widget_env
       \<lparr>ip_title = ''T'', ip_body = ''B'', ip_owner = ''acme'', ip_repo = ''widgets''\<rparr> idle_state))
   \<and> ar_error (fst (createGitHubIssue widget_env
       \<lparr>ip_title = ''T'', ip_body = ''B'', ip_owner = ''acme'', ip_repo = ''widgets''\<rparr> idle_state))
      = None
   \<and> ar_result (fst (createGitHubIssue widget_env
       \<lparr>ip_title = ''T'', ip_body = ''B'', ip_owner = ''acme'', ip_repo = ''widgets''\<rparr> idle_state))
      \<noteq> None
   \<and> \<not> ar_success (fst (createGitHubIssue missing_repo_env
       \<lparr>ip_title = ''T'', ip_body = ''B'', ip_owner = ''acme'', ip_repo = ''widgets''\<rparr> idle_state))
   \<and> ar_result (fst (createGitHubIssue missing_repo_env
       \<lparr>ip_title = ''T'', ip_body = ''B'', ip_owner = ''acme'', ip_repo = ''widgets''\<rparr> idle_state))
      = None
   \<and> ar_error (fst (createGitHubIssue missing_repo_env
       \<lparr>ip_title = ''T'', ip_body = ''B'', ip_owner = ''acme'', ip_repo = ''widgets''\<rparr> idle_state))
      = Some ''Repository acme/widgets not found or not accessible.''"
proof -
  let ?p = "\<lparr>ip_title = ''T'', ip_body = ''B'', ip_owner = ''acme'', ip_repo = ''widgets''\<rparr>"
  have w: "issues_post widget_env u d k \<noteq> Rejected (Other_error [])" for u d k
    by (simp add: widget_env_def)
  have m: "issues_post missing_repo_env u d k \<noteq> Rejected (Other_error [])" for u d k
    by (simp add: missing_repo_env_def widget_env_def)
  have ok: "ar_success (fst (createGitHubIssue widget_env ?p idle_state))"
    by (simp add: widget_action)
  have ko: "fst (createGitHubIssue missing_repo_env ?p idle_state) =
      failedResult ''Repository acme/widgets not found or not accessible.'' 1000"
    by (simp add: createGitHubIssue_def try_createGitHubIssue_def getGitHubConnection_def
        new_Date_def errorMessage_def missing_repo_env_def widget_env_def idle_state_def)
  show ?thesis
    using createGitHubIssue_result_gated [of widget_env ?p idle_state, OF w] createGitHubIssue_result_gated [of missing_repo_env ?p idle_state, OF m]
      ok ko
    by (simp add: failedResult_def)
qed

text \<open>
  \<^bold>\<open>C10.\<close> For a request whose body has no \<^verbatim>\<open>sessionId\<close>, no event of any type is published
  during the run, on any path, and no channel of the registry is written to; when the run
  succeeds, the response carries the generated identifier \<^verbatim>\<open>session_<Date.now()>\<close>. (The
  same identifier is part of the research query handed to \<^verbatim>\<open>generateResearch\<close>; no event
  is addressed to it.)
\<close>

theorem no_session_no_events:
  assumes "req_sessionId req = None"
  shows "run_events e req s = []
    \<and> published (snd (research_and_action e req s)) = published s
    \<and> sseClients (snd (research_and_action e req s)) = sseClients s
    \<and> (\<forall>b. json (fst (research_and_action e req s)) = Success_body b \<longrightarrow>
          sb_sessionId b = ''session_'' @ dec (clock e (clock_reads s)))"
proof -
  have f: "\<not> truthy (req_sessionId req)" using assms by (simp add: truthy_def)
  show ?thesis
    using silent_without_session [OF f] generated_session_in_response [OF f]
    by (simp add: run_events_def)
qed

theorem anonymous_run_is_silent:
  "req_sessionId anonymous_request = None
   \<and> run_events widget_env anonymous_request idle_state = []
   \<and> (\<exists>b. json (fst (research_and_action widget_env anonymous_request idle_state)) = Success_body b
         \<and> sb_sessionId b = ''session_1000'')"
proof -
  have q: "''Research X'' \<noteq> []" by simp
  have "research_and_action widget_env anonymous_request idle_state =
      create_issue_step widget_env anonymous_request ''Research X''
        (fst (session_or_generated widget_env (req_sessionId anonymous_request) idle_state))
        widget_research \<lparr>ic_title = ''T'', ic_body = ''B''\<rparr>
        (snd (plan_step widget_env anonymous_request widget_service widget_research ''Research X''
          (snd (research_step widget_env anonymous_request widget_service
            \<lparr>rq_query = ''Research X'', rq_userId = None,
             rq_sessionId = Some (fst (session_or_generated widget_env
               (req_sessionId anonymous_request) idle_state))\<rparr>
            (snd (session_or_generated widget_env (req_sessionId anonymous_request) idle_state))))))"
    by (rule run_reaches_step4 [OF widget_request_fields(4) q widget_run(1,2,3,5,4)])
  then obtain b where b: "json (fst (research_and_action widget_env anonymous_request idle_state))
      = Success_body b"
    by (simp add: fst_create_issue_step final_result_def)
  have d: "dec 1000 = ''1000''"
    by (simp add: dec.simps)
  show ?thesis
    using no_session_no_events [OF widget_request_fields(5), of widget_env idle_state] b
    by (simp add: widget_request_fields outage_run idle_state_fields d)
qed

end
